theory Spec2Isabelle
  imports Complex_Main "HOL-Library.AList" "HOL-Library.Log_Nat"
begin

section \<open>Strings of the source\<close>

text \<open>
  The platform names, the 32 content labels, the six follower ranges and the two
  bookkeeping columns of the ad matrix are Chinese string literals in the source.
  A \<^typ>\<open>string\<close> is a list of bytes, so each literal is written as its UTF-8
  encoding; the comment beside each gives the Unicode code points.  The names follow the
  transliterations that \<^verbatim>\<open>get_categories\<close> itself lists (spelled as there).
  Only equality of these strings is ever used.
\<close>

abbreviation s_douyin :: string where \<comment> \<open>U+6296 U+97F3\<close>
  "s_douyin \<equiv> [CHR 0xE6, CHR 0x8A, CHR 0x96, CHR 0xE9, CHR 0x9F, CHR 0xB3]"

abbreviation s_xiaohongshu :: string where \<comment> \<open>U+5C0F U+7EA2 U+4E66\<close>
  "s_xiaohongshu \<equiv> [CHR 0xE5, CHR 0xB0, CHR 0x8F, CHR 0xE7, CHR 0xBA, CHR 0xA2, CHR 0xE4, CHR 0xB9, CHR 0xA6]"

abbreviation s_bzhan :: string where \<comment> \<open>U+0042 U+7AD9\<close>
  "s_bzhan \<equiv> [CHR ''B'', CHR 0xE7, CHR 0xAB, CHR 0x99]"

abbreviation s_kuaishou :: string where \<comment> \<open>U+5FEB U+624B\<close>
  "s_kuaishou \<equiv> [CHR 0xE5, CHR 0xBF, CHR 0xAB, CHR 0xE6, CHR 0x89, CHR 0x8B]"

abbreviation s_sannong :: string where \<comment> \<open>U+4E09 U+519C\<close>
  "s_sannong \<equiv> [CHR 0xE4, CHR 0xB8, CHR 0x89, CHR 0xE5, CHR 0x86, CHR 0x9C]"

abbreviation s_erciyan :: string where \<comment> \<open>U+4E8C U+6B21 U+5143\<close>
  "s_erciyan \<equiv> [CHR 0xE4, CHR 0xBA, CHR 0x8C, CHR 0xE6, CHR 0xAC, CHR 0xA1, CHR 0xE5, CHR 0x85, CHR 0x83]"

abbreviation s_jiankang :: string where \<comment> \<open>U+5065 U+5EB7\<close>
  "s_jiankang \<equiv> [CHR 0xE5, CHR 0x81, CHR 0xA5, CHR 0xE5, CHR 0xBA, CHR 0xB7]"

abbreviation s_xingquaihao :: string where \<comment> \<open>U+5174 U+8DA3 U+7231 U+597D\<close>
  "s_xingquaihao \<equiv> [CHR 0xE5, CHR 0x85, CHR 0xB4, CHR 0xE8, CHR 0xB6, CHR 0xA3, CHR 0xE7, CHR 0x88, CHR 0xB1, CHR 0xE5, CHR 0xA5, CHR 0xBD]"

abbreviation s_qita :: string where \<comment> \<open>U+5176 U+4ED6\<close>
  "s_qita \<equiv> [CHR 0xE5, CHR 0x85, CHR 0xB6, CHR 0xE4, CHR 0xBB, CHR 0x96]"

abbreviation s_yiliaojiankang :: string where \<comment> \<open>U+533B U+7597 U+5065 U+5EB7\<close>
  "s_yiliaojiankang \<equiv> [CHR 0xE5, CHR 0x8C, CHR 0xBB, CHR 0xE7, CHR 0x96, CHR 0x97, CHR 0xE5, CHR 0x81, CHR 0xA5, CHR 0xE5, CHR 0xBA, CHR 0xB7]"

abbreviation s_yule :: string where \<comment> \<open>U+5A31 U+4E50\<close>
  "s_yule \<equiv> [CHR 0xE5, CHR 0xA8, CHR 0xB1, CHR 0xE4, CHR 0xB9, CHR 0x90]"

abbreviation s_jiajujiazhuang :: string where \<comment> \<open>U+5BB6 U+5C45 U+5BB6 U+88C5\<close>
  "s_jiajujiazhuang \<equiv> [CHR 0xE5, CHR 0xAE, CHR 0xB6, CHR 0xE5, CHR 0xB1, CHR 0x85, CHR 0xE5, CHR 0xAE, CHR 0xB6, CHR 0xE8, CHR 0xA3, CHR 0x85]"

abbreviation s_youmogaoxiao :: string where \<comment> \<open>U+5E7D U+9ED8 U+641E U+7B11\<close>
  "s_youmogaoxiao \<equiv> [CHR 0xE5, CHR 0xB9, CHR 0xBD, CHR 0xE9, CHR 0xBB, CHR 0x98, CHR 0xE6, CHR 0x90, CHR 0x9E, CHR 0xE7, CHR 0xAC, CHR 0x91]"

abbreviation s_yingshizongyi :: string where \<comment> \<open>U+5F71 U+89C6 U+7EFC U+827A\<close>
  "s_yingshizongyi \<equiv> [CHR 0xE5, CHR 0xBD, CHR 0xB1, CHR 0xE8, CHR 0xA7, CHR 0x86, CHR 0xE7, CHR 0xBB, CHR 0xBC, CHR 0xE8, CHR 0x89, CHR 0xBA]"

abbreviation s_qingganxinli :: string where \<comment> \<open>U+60C5 U+611F U+5FC3 U+7406\<close>
  "s_qingganxinli \<equiv> [CHR 0xE6, CHR 0x83, CHR 0x85, CHR 0xE6, CHR 0x84, CHR 0x9F, CHR 0xE5, CHR 0xBF, CHR 0x83, CHR 0xE7, CHR 0x90, CHR 0x86]"

abbreviation s_caiyijineng :: string where \<comment> \<open>U+624D U+827A U+6280 U+80FD\<close>
  "s_caiyijineng \<equiv> [CHR 0xE6, CHR 0x89, CHR 0x8D, CHR 0xE8, CHR 0x89, CHR 0xBA, CHR 0xE6, CHR 0x8A, CHR 0x80, CHR 0xE8, CHR 0x83, CHR 0xBD]"

abbreviation s_jiaoyupeixun :: string where \<comment> \<open>U+6559 U+80B2 U+57F9 U+8BAD\<close>
  "s_jiaoyupeixun \<equiv> [CHR 0xE6, CHR 0x95, CHR 0x99, CHR 0xE8, CHR 0x82, CHR 0xB2, CHR 0xE5, CHR 0x9F, CHR 0xB9, CHR 0xE8, CHR 0xAE, CHR 0xAD]"

abbreviation s_wenhua :: string where \<comment> \<open>U+6587 U+5316\<close>
  "s_wenhua \<equiv> [CHR 0xE6, CHR 0x96, CHR 0x87, CHR 0xE5, CHR 0x8C, CHR 0x96]"

abbreviation s_lvyou :: string where \<comment> \<open>U+65C5 U+6E38\<close>
  "s_lvyou \<equiv> [CHR 0xE6, CHR 0x97, CHR 0x85, CHR 0xE6, CHR 0xB8, CHR 0xB8]"

abbreviation s_shishizixun :: string where \<comment> \<open>U+65F6 U+4E8B U+8D44 U+8BAF\<close>
  "s_shishizixun \<equiv> [CHR 0xE6, CHR 0x97, CHR 0xB6, CHR 0xE4, CHR 0xBA, CHR 0x8B, CHR 0xE8, CHR 0xB5, CHR 0x84, CHR 0xE8, CHR 0xAE, CHR 0xAF]"

abbreviation s_shishang :: string where \<comment> \<open>U+65F6 U+5C1A\<close>
  "s_shishang \<equiv> [CHR 0xE6, CHR 0x97, CHR 0xB6, CHR 0xE5, CHR 0xB0, CHR 0x9A]"

abbreviation s_muyingyuer :: string where \<comment> \<open>U+6BCD U+5A74 U+80B2 U+513F\<close>
  "s_muyingyuer \<equiv> [CHR 0xE6, CHR 0xAF, CHR 0x8D, CHR 0xE5, CHR 0xA9, CHR 0xB4, CHR 0xE8, CHR 0x82, CHR 0xB2, CHR 0xE5, CHR 0x84, CHR 0xBF]"

abbreviation s_qiche :: string where \<comment> \<open>U+6C7D U+8F66\<close>
  "s_qiche \<equiv> [CHR 0xE6, CHR 0xB1, CHR 0xBD, CHR 0xE8, CHR 0xBD, CHR 0xA6]"

abbreviation s_youxi :: string where \<comment> \<open>U+6E38 U+620F\<close>
  "s_youxi \<equiv> [CHR 0xE6, CHR 0xB8, CHR 0xB8, CHR 0xE6, CHR 0x88, CHR 0x8F]"

abbreviation s_shenghuo :: string where \<comment> \<open>U+751F U+6D3B\<close>
  "s_shenghuo \<equiv> [CHR 0xE7, CHR 0x94, CHR 0x9F, CHR 0xE6, CHR 0xB4, CHR 0xBB]"

abbreviation s_kexuekepu :: string where \<comment> \<open>U+79D1 U+5B66 U+79D1 U+666E\<close>
  "s_kexuekepu \<equiv> [CHR 0xE7, CHR 0xA7, CHR 0x91, CHR 0xE5, CHR 0xAD, CHR 0xA6, CHR 0xE7, CHR 0xA7, CHR 0x91, CHR 0xE6, CHR 0x99, CHR 0xAE]"

abbreviation s_keji :: string where \<comment> \<open>U+79D1 U+6280\<close>
  "s_keji \<equiv> [CHR 0xE7, CHR 0xA7, CHR 0x91, CHR 0xE6, CHR 0x8A, CHR 0x80]"

abbreviation s_meizhuang :: string where \<comment> \<open>U+7F8E U+5986\<close>
  "s_meizhuang \<equiv> [CHR 0xE7, CHR 0xBE, CHR 0x8E, CHR 0xE5, CHR 0xA6, CHR 0x86]"

abbreviation s_meironggenghu :: string where \<comment> \<open>U+7F8E U+5BB9 U+4E2A U+62A4\<close>
  "s_meironggenghu \<equiv> [CHR 0xE7, CHR 0xBE, CHR 0x8E, CHR 0xE5, CHR 0xAE, CHR 0xB9, CHR 0xE4, CHR 0xB8, CHR 0xAA, CHR 0xE6, CHR 0x8A, CHR 0xA4]"

abbreviation s_meishi :: string where \<comment> \<open>U+7F8E U+98DF\<close>
  "s_meishi \<equiv> [CHR 0xE7, CHR 0xBE, CHR 0x8E, CHR 0xE9, CHR 0xA3, CHR 0x9F]"

abbreviation s_zhichang :: string where \<comment> \<open>U+804C U+573A\<close>
  "s_zhichang \<equiv> [CHR 0xE8, CHR 0x81, CHR 0x8C, CHR 0xE5, CHR 0x9C, CHR 0xBA]"

abbreviation s_mengchong :: string where \<comment> \<open>U+840C U+5BA0\<close>
  "s_mengchong \<equiv> [CHR 0xE8, CHR 0x90, CHR 0x8C, CHR 0xE5, CHR 0xAE, CHR 0xA0]"

abbreviation s_caijing :: string where \<comment> \<open>U+8D22 U+7ECF\<close>
  "s_caijing \<equiv> [CHR 0xE8, CHR 0xB4, CHR 0xA2, CHR 0xE7, CHR 0xBB, CHR 0x8F]"

abbreviation s_yundongjianshen :: string where \<comment> \<open>U+8FD0 U+52A8 U+5065 U+8EAB\<close>
  "s_yundongjianshen \<equiv> [CHR 0xE8, CHR 0xBF, CHR 0x90, CHR 0xE5, CHR 0x8A, CHR 0xA8, CHR 0xE5, CHR 0x81, CHR 0xA5, CHR 0xE8, CHR 0xBA, CHR 0xAB]"

abbreviation s_yinyue :: string where \<comment> \<open>U+97F3 U+4E50\<close>
  "s_yinyue \<equiv> [CHR 0xE9, CHR 0x9F, CHR 0xB3, CHR 0xE4, CHR 0xB9, CHR 0x90]"

abbreviation s_yanzhi :: string where \<comment> \<open>U+989C U+503C\<close>
  "s_yanzhi \<equiv> [CHR 0xE9, CHR 0xA2, CHR 0x9C, CHR 0xE5, CHR 0x80, CHR 0xBC]"

abbreviation s_1_10wan :: string where \<comment> \<open>U+0031 U+002D U+0031 U+0030 U+4E07\<close>
  "s_1_10wan \<equiv> [CHR ''1'', CHR ''-'', CHR ''1'', CHR ''0'', CHR 0xE4, CHR 0xB8, CHR 0x87]"

abbreviation s_10_50wan :: string where \<comment> \<open>U+0031 U+0030 U+002D U+0035 U+0030 U+4E07\<close>
  "s_10_50wan \<equiv> [CHR ''1'', CHR ''0'', CHR ''-'', CHR ''5'', CHR ''0'', CHR 0xE4, CHR 0xB8, CHR 0x87]"

abbreviation s_50_100wan :: string where \<comment> \<open>U+0035 U+0030 U+002D U+0031 U+0030 U+0030 U+4E07\<close>
  "s_50_100wan \<equiv> [CHR ''5'', CHR ''0'', CHR ''-'', CHR ''1'', CHR ''0'', CHR ''0'', CHR 0xE4, CHR 0xB8, CHR 0x87]"

abbreviation s_100_500wan :: string where \<comment> \<open>U+0031 U+0030 U+0030 U+002D U+0035 U+0030 U+0030 U+4E07\<close>
  "s_100_500wan \<equiv> [CHR ''1'', CHR ''0'', CHR ''0'', CHR ''-'', CHR ''5'', CHR ''0'', CHR ''0'', CHR 0xE4, CHR 0xB8, CHR 0x87]"

abbreviation s_500_1000wan :: string where \<comment> \<open>U+0035 U+0030 U+0030 U+002D U+0031 U+0030 U+0030 U+0030 U+4E07\<close>
  "s_500_1000wan \<equiv> [CHR ''5'', CHR ''0'', CHR ''0'', CHR ''-'', CHR ''1'', CHR ''0'', CHR ''0'', CHR ''0'', CHR 0xE4, CHR 0xB8, CHR 0x87]"

abbreviation s_1000wan_plus :: string where \<comment> \<open>U+0031 U+0030 U+0030 U+0030 U+4E07 U+002B\<close>
  "s_1000wan_plus \<equiv> [CHR ''1'', CHR ''0'', CHR ''0'', CHR ''0'', CHR 0xE4, CHR 0xB8, CHR 0x87, CHR ''+'']"

abbreviation s_fensiliangji :: string where \<comment> \<open>U+7C89 U+4E1D U+91CF U+7EA7\<close>
  "s_fensiliangji \<equiv> [CHR 0xE7, CHR 0xB2, CHR 0x89, CHR 0xE4, CHR 0xB8, CHR 0x9D, CHR 0xE9, CHR 0x87, CHR 0x8F, CHR 0xE7, CHR 0xBA, CHR 0xA7]"

abbreviation s_pingtai :: string where \<comment> \<open>U+5E73 U+53F0\<close>
  "s_pingtai \<equiv> [CHR 0xE5, CHR 0xB9, CHR 0xB3, CHR 0xE5, CHR 0x8F, CHR 0xB0]"

section \<open>Results and exceptions\<close>

text \<open>
  Python floats are modelled as exact reals (the spec's own type for prices and follower
  counts); only \<open>round\<close> looks at the double behind a value.  A call either returns a
  value (\<open>Inr\<close>) or raises (\<open>Inl\<close>).
  \<open>NonFiniteFloat\<close> is not an exception: it marks a call whose source returns an IEEE
  infinity or NaN produced by numpy (which warns instead of raising), a value the reals
  do not have.
\<close>

datatype value_error =
    unsupported_label string      \<comment> \<open>get_price: category not in DOUYIN_FUNCTIONS\<close>
  | label_coeff_missing string    \<comment> \<open>get_price: category not in COEFF_MATRIX\<close>
  | invalid_platform              \<comment> \<open>predict_value: platform not in platform_params\<close>
  | invalid_label                 \<comment> \<open>predict_value, get_single_ad_value: label not in label_params\<close>
  | invalid_int_literal string    \<comment> \<open>int(s) on a string that is no integer literal\<close>

datatype py_error = ZeroDivisionError | IndexError | ValueError value_error | NonFiniteFloat

definition bind_result :: "py_error + 'a \<Rightarrow> ('a \<Rightarrow> py_error + 'b) \<Rightarrow> py_error + 'b" where
  "bind_result r f = (case r of Inl e \<Rightarrow> Inl e | Inr v \<Rightarrow> f v)"

section \<open>pricing\_module: the continuous piecewise-linear curve\<close>

text \<open>A segment is the tuple \<open>(x1, x2, slope, intercept)\<close> that \<open>__init__\<close> appends.\<close>

type_synonym segment = "real \<times> real \<times> real \<times> real"

record ContinuousPiecewiseFunction =
  segments :: "segment list"

text \<open>
  \<open>__init__\<close>: one segment per consecutive pair of breakpoints, left to right.  The
  only operation that can raise is the division by \<open>x2 - x1\<close>; nothing is validated.
  With fewer than two breakpoints the loop body never runs.
\<close>

fun build_segments :: "(real \<times> real) list \<Rightarrow> py_error + segment list" where
  "build_segments ((x1, y1) # (x2, y2) # rest) =
     (if x2 - x1 = 0 then Inl ZeroDivisionError
      else let slope = (y2 - y1) / (x2 - x1);
               intercept = y1 - slope * x1
           in bind_result (build_segments ((x2, y2) # rest))
                (\<lambda>segs. Inr ((x1, x2, slope, intercept) # segs)))"
| "build_segments _ = Inr []"

definition init_cpf :: "(real \<times> real) list \<Rightarrow> py_error + ContinuousPiecewiseFunction" where
  "init_cpf breakpoints =
     bind_result (build_segments breakpoints) (\<lambda>segs. Inr \<lparr>segments = segs\<rparr>)"

text \<open>
  \<open>__call__\<close>: the first segment with \<open>start \<le> x < end\<close> answers; when none does, the
  last segment is used, and \<open>self.segments[-1]\<close> raises IndexError on an empty list.
\<close>

fun first_match :: "segment list \<Rightarrow> real \<Rightarrow> real option" where
  "first_match [] x = None"
| "first_match ((start, end, slope, intercept) # rest) x =
     (if start \<le> x \<and> x < end then Some (slope * x + intercept) else first_match rest x)"

definition call_cpf :: "ContinuousPiecewiseFunction \<Rightarrow> real \<Rightarrow> py_error + real" where
  "call_cpf self x =
     (case first_match (segments self) x of
        Some v \<Rightarrow> Inr v
      | None \<Rightarrow>
          (if segments self = [] then Inl IndexError
           else case last (segments self) of
                  (start, end, slope, intercept) \<Rightarrow> Inr (slope * x + intercept)))"

subsection \<open>The 32 curves of the reference platform\<close>

text \<open>
  \<open>build_douyin_functions\<close> assigns one curve per label into a dict, in this order; the
  float literals \<open>6e4\<close>, \<open>30e4\<close>, ... are written out.  A dict is an association list in
  insertion order, and \<open>functions[key] = v\<close> is \<^const>\<open>AList.update\<close>.
\<close>

definition douyin_breakpoints :: "(string \<times> (real \<times> real) list) list" where
  "douyin_breakpoints = [
   (s_sannong, [(0, 200), (60000, 6800), (300000, 15200), (750000, 32000), (3000000, 68000), (7500000, 250000), (20000000, 420000)]),
   (s_erciyan, [(0, 300), (60000, 5500), (300000, 11200), (750000, 26000), (3000000, 45000), (7500000, 180000), (20000000, 260000)]),
   (s_jiankang, [(0, 500), (60000, 8000), (300000, 18000), (750000, 38000), (3000000, 110000), (7500000, 220000), (20000000, 350000)]),
   (s_xingquaihao, [(0, 0), (60000, 6000), (300000, 15000), (750000, 35000), (3000000, 70000), (7500000, 150000), (20000000, 300000)]),
   (s_qita, [(0, 0), (60000, 7500), (300000, 16000), (750000, 30000), (3000000, 60000), (7500000, 140000), (20000000, 280000)]),
   (s_yiliaojiankang, [(0, 1000), (60000, 8500), (300000, 20000), (750000, 45000), (3000000, 95000), (7500000, 200000), (20000000, 400000)]),
   (s_yule, [(0, 0), (60000, 5000), (300000, 12000), (750000, 25000), (3000000, 50000), (7500000, 100000), (20000000, 200000)]),
   (s_jiajujiazhuang, [(0, 0), (60000, 10000), (300000, 21000), (750000, 52000), (3000000, 78000), (7500000, 120000), (20000000, 220000)]),
   (s_youmogaoxiao, [(0, 0), (60000, 7000), (300000, 19000), (750000, 45000), (3000000, 90000), (7500000, 200000), (20000000, 400000)]),
   (s_yingshizongyi, [(0, 2500), (60000, 7000), (300000, 23500), (750000, 52500), (3000000, 126000), (7500000, 220000), (20000000, 400000)]),
   (s_qingganxinli, [(0, 500), (60000, 8500), (300000, 22000), (750000, 60000), (3000000, 110000), (7500000, 210000), (20000000, 450000)]),
   (s_caiyijineng, [(0, 0), (60000, 9500), (300000, 25000), (750000, 50000), (3000000, 90000), (7500000, 160000), (20000000, 300000)]),
   (s_jiaoyupeixun, [(0, 0), (60000, 8000), (300000, 22000), (750000, 45000), (3000000, 85000), (7500000, 180000), (20000000, 380000)]),
   (s_wenhua, [(0, 0), (60000, 6000), (300000, 18000), (750000, 40000), (3000000, 80000), (7500000, 160000), (20000000, 300000)]),
   (s_lvyou, [(0, 0), (60000, 6500), (300000, 20000), (750000, 50000), (3000000, 95000), (7500000, 180000), (20000000, 450000)]),
   (s_shishizixun, [(0, 0), (60000, 7000), (300000, 18000), (750000, 40000), (3000000, 75000), (7500000, 140000), (20000000, 280000)]),
   (s_shishang, [(0, 1000), (60000, 9500), (300000, 35000), (750000, 75000), (3000000, 130000), (7500000, 250000), (20000000, 1000000)]),
   (s_muyingyuer, [(0, 0), (60000, 9000), (300000, 22000), (750000, 60000), (3000000, 95000), (7500000, 180000), (20000000, 360000)]),
   (s_qiche, [(0, 500), (60000, 8000), (300000, 32000), (750000, 98000), (3000000, 150000), (7500000, 220000), (20000000, 720000)]),
   (s_youxi, [(0, 200), (60000, 6500), (300000, 18000), (750000, 42000), (3000000, 75000), (7500000, 120000), (20000000, 220000)]),
   (s_shenghuo, [(0, 500), (60000, 8500), (300000, 22000), (750000, 50000), (3000000, 95000), (7500000, 180000), (20000000, 400000)]),
   (s_kexuekepu, [(0, 0), (60000, 8000), (300000, 20000), (750000, 45000), (3000000, 85000), (7500000, 160000), (20000000, 320000)]),
   (s_keji, [(0, 500), (60000, 8500), (300000, 22000), (750000, 50000), (3000000, 95000), (7500000, 180000), (20000000, 400000)]),
   (s_meizhuang, [(0, 2000), (60000, 9500), (300000, 38000), (750000, 95000), (3000000, 145000), (7500000, 240000), (20000000, 880000)]),
   (s_meironggenghu, [(0, 0), (60000, 9000), (300000, 25000), (750000, 55000), (3000000, 100000), (7500000, 180000), (20000000, 380000)]),
   (s_meishi, [(0, 0), (60000, 7500), (300000, 20000), (750000, 45000), (3000000, 85000), (7500000, 150000), (20000000, 350000)]),
   (s_zhichang, [(0, 0), (60000, 7000), (300000, 18000), (750000, 40000), (3000000, 75000), (7500000, 140000), (20000000, 280000)]),
   (s_mengchong, [(0, 500), (60000, 8500), (300000, 18000), (750000, 35000), (3000000, 65000), (7500000, 120000), (20000000, 240000)]),
   (s_caijing, [(0, 500), (60000, 9500), (300000, 35000), (750000, 75000), (3000000, 160000), (7500000, 300000), (20000000, 1800000)]),
   (s_yundongjianshen, [(0, 0), (60000, 7000), (300000, 20000), (750000, 55000), (3000000, 95000), (7500000, 170000), (20000000, 350000)]),
   (s_yinyue, [(0, 0), (60000, 7500), (300000, 18000), (750000, 40000), (3000000, 80000), (7500000, 150000), (20000000, 300000)]),
   (s_yanzhi, [(0, 0), (60000, 8000), (300000, 20000), (750000, 45000), (3000000, 85000), (7500000, 160000), (20000000, 320000)])]"

fun assign_functions ::
  "(string \<times> (real \<times> real) list) list \<Rightarrow> (string \<times> ContinuousPiecewiseFunction) list
     \<Rightarrow> py_error + (string \<times> ContinuousPiecewiseFunction) list" where
  "assign_functions [] functions = Inr functions"
| "assign_functions ((key, breakpoints) # rest) functions =
     bind_result (init_cpf breakpoints)
       (\<lambda>f. assign_functions rest (AList.update key f functions))"

definition build_douyin_functions :: "py_error + (string \<times> ContinuousPiecewiseFunction) list" where
  "build_douyin_functions = assign_functions douyin_breakpoints []"

text \<open>The module-level constant; the construction does not raise (lemma \<open>build_douyin_ok\<close>).\<close>

definition DOUYIN_FUNCTIONS :: "(string \<times> ContinuousPiecewiseFunction) list" where
  "DOUYIN_FUNCTIONS = (case build_douyin_functions of Inr fs \<Rightarrow> fs | Inl e \<Rightarrow> [])"

definition COEFF_MATRIX :: "(string \<times> (string \<times> real) list) list" where
  "COEFF_MATRIX = [
   (s_sannong, [(s_xiaohongshu, 0.5), (s_bzhan, 0.3), (s_kuaishou, 1.8), (s_douyin, 1)]),
   (s_erciyan, [(s_xiaohongshu, 0.7), (s_bzhan, 2.2), (s_kuaishou, 0.4), (s_douyin, 1)]),
   (s_jiankang, [(s_xiaohongshu, 1.3), (s_bzhan, 0.8), (s_kuaishou, 1.1), (s_douyin, 1)]),
   (s_xingquaihao, [(s_xiaohongshu, 1.2), (s_bzhan, 1.4), (s_kuaishou, 0.9), (s_douyin, 1)]),
   (s_qita, [(s_xiaohongshu, 0.8), (s_bzhan, 0.9), (s_kuaishou, 1.0), (s_douyin, 1)]),
   (s_yiliaojiankang, [(s_xiaohongshu, 1.0), (s_bzhan, 0.6), (s_kuaishou, 1.3), (s_douyin, 1)]),
   (s_yule, [(s_xiaohongshu, 0.9), (s_bzhan, 1.1), (s_kuaishou, 1.4), (s_douyin, 1)]),
   (s_jiajujiazhuang, [(s_xiaohongshu, 1.8), (s_bzhan, 0.5), (s_kuaishou, 1.0), (s_douyin, 1)]),
   (s_youmogaoxiao, [(s_xiaohongshu, 0.7), (s_bzhan, 1.0), (s_kuaishou, 1.6), (s_douyin, 1)]),
   (s_yingshizongyi, [(s_xiaohongshu, 0.8), (s_bzhan, 1.7), (s_kuaishou, 0.9), (s_douyin, 1)]),
   (s_qingganxinli, [(s_xiaohongshu, 1.6), (s_bzhan, 0.7), (s_kuaishou, 1.0), (s_douyin, 1)]),
   (s_caiyijineng, [(s_xiaohongshu, 1.1), (s_bzhan, 1.5), (s_kuaishou, 0.8), (s_douyin, 1)]),
   (s_jiaoyupeixun, [(s_xiaohongshu, 1.0), (s_bzhan, 1.6), (s_kuaishou, 0.6), (s_douyin, 1)]),
   (s_wenhua, [(s_xiaohongshu, 1.1), (s_bzhan, 1.8), (s_kuaishou, 0.5), (s_douyin, 1)]),
   (s_lvyou, [(s_xiaohongshu, 1.6), (s_bzhan, 0.9), (s_kuaishou, 1.1), (s_douyin, 1)]),
   (s_shishizixun, [(s_xiaohongshu, 0.6), (s_bzhan, 1.3), (s_kuaishou, 1.1), (s_douyin, 1)]),
   (s_shishang, [(s_xiaohongshu, 1.9), (s_bzhan, 0.8), (s_kuaishou, 1.2), (s_douyin, 1)]),
   (s_muyingyuer, [(s_xiaohongshu, 1.5), (s_bzhan, 0.4), (s_kuaishou, 1.5), (s_douyin, 1)]),
   (s_qiche, [(s_xiaohongshu, 0.7), (s_bzhan, 1.1), (s_kuaishou, 0.9), (s_douyin, 1)]),
   (s_youxi, [(s_xiaohongshu, 0.5), (s_bzhan, 2.0), (s_kuaishou, 0.7), (s_douyin, 1)]),
   (s_shenghuo, [(s_xiaohongshu, 1.3), (s_bzhan, 1.0), (s_kuaishou, 1.5), (s_douyin, 1)]),
   (s_kexuekepu, [(s_xiaohongshu, 0.9), (s_bzhan, 1.7), (s_kuaishou, 0.6), (s_douyin, 1)]),
   (s_keji, [(s_xiaohongshu, 0.6), (s_bzhan, 1.8), (s_kuaishou, 0.8), (s_douyin, 1)]),
   (s_meizhuang, [(s_xiaohongshu, 2.0), (s_bzhan, 0.6), (s_kuaishou, 1.0), (s_douyin, 1)]),
   (s_meironggenghu, [(s_xiaohongshu, 1.7), (s_bzhan, 0.5), (s_kuaishou, 0.9), (s_douyin, 1)]),
   (s_meishi, [(s_xiaohongshu, 1.5), (s_bzhan, 1.0), (s_kuaishou, 1.4), (s_douyin, 1)]),
   (s_zhichang, [(s_xiaohongshu, 1.1), (s_bzhan, 1.4), (s_kuaishou, 0.7), (s_douyin, 1)]),
   (s_mengchong, [(s_xiaohongshu, 1.2), (s_bzhan, 1.1), (s_kuaishou, 1.4), (s_douyin, 1)]),
   (s_caijing, [(s_xiaohongshu, 0.8), (s_bzhan, 1.0), (s_kuaishou, 0.5), (s_douyin, 1)]),
   (s_yundongjianshen, [(s_xiaohongshu, 1.1), (s_bzhan, 0.9), (s_kuaishou, 1.0), (s_douyin, 1)]),
   (s_yinyue, [(s_xiaohongshu, 1.0), (s_bzhan, 1.5), (s_kuaishou, 1.1), (s_douyin, 1)]),
   (s_yanzhi, [(s_xiaohongshu, 1.4), (s_bzhan, 1.0), (s_kuaishou, 1.3), (s_douyin, 1)])]"

subsection \<open>get\_price\<close>

text \<open>
  \<open>**kwargs\<close> is a dict from keyword names to values; only the truth value of
  \<open>is_celebrity\<close> is read, so values are booleans.  \<open>d.get(key, default)\<close> is
  \<open>dict_get\<close>.
\<close>

definition dict_get :: "('k \<times> 'v) list \<Rightarrow> 'k \<Rightarrow> 'v \<Rightarrow> 'v" where
  "dict_get d key dflt = (case map_of d key of Some v \<Rightarrow> v | None \<Rightarrow> dflt)"

definition get_price ::
  "string \<Rightarrow> string \<Rightarrow> real \<Rightarrow> (string \<times> bool) list \<Rightarrow> py_error + real" where
  "get_price platform category followers kwargs =
     (case map_of DOUYIN_FUNCTIONS category of
        None \<Rightarrow> Inl (ValueError (unsupported_label category))
      | Some base_func \<Rightarrow>
          (case map_of COEFF_MATRIX category of
             None \<Rightarrow> Inl (ValueError (label_coeff_missing category))
           | Some coeffs \<Rightarrow>
               bind_result (call_cpf base_func followers)
                 (\<lambda>base_price0.
                    let base_price =
                          (if category = s_yingshizongyi \<and> dict_get kwargs ''is_celebrity'' False
                           then base_price0 * 2 else base_price0);
                        platform_coeff = dict_get coeffs platform 1.0;
                        final_price = base_price * platform_coeff
                    in Inr final_price)))"

section \<open>value\_predictor: Python and pandas primitives\<close>

text \<open>
  Values are exact reals, but \<open>round\<close> looks at the double that holds its argument: a
  decimal tie such as 0.025 is not a double, and the double nearest to it lies on one
  side of it.  \<open>double_of x\<close> is the double nearest to \<open>x\<close> (53 significant bits, a tie
  between two doubles going to the even significand; the exponent range is not limited).
\<close>

definition round_half_even :: "real \<Rightarrow> int" where
  "round_half_even x =
     (let lower = \<lfloor>x\<rfloor>;
          frac = x - of_int lower
      in if frac < 1 / 2 then lower
         else if 1 / 2 < frac then lower + 1
         else if even lower then lower else lower + 1)"

text \<open>The exponent \<open>e\<close> with \<open>2 ^ e \<le> a < 2 ^ (e + 1)\<close>, for \<open>a > 0\<close>.\<close>

definition binary_exponent :: "real \<Rightarrow> int" where
  "binary_exponent a =
     (if 1 \<le> a then bitlen \<lfloor>a\<rfloor> - 1 else - bitlen (\<lceil>1 / a\<rceil> - 1))"

definition double_of :: "real \<Rightarrow> real" where
  "double_of x =
     (if x = 0 then 0
      else let ulp = 2 powi (binary_exponent \<bar>x\<bar> - 52)
           in sgn x * (of_int (round_half_even (\<bar>x\<bar> / ulp)) * ulp))"

text \<open>
  \<open>round(x, 2)\<close> of a Python float: the multiple of \<open>1/100\<close> nearest to the exact value
  of the double, a tie of that value going to the even multiple.  (Python returns the
  double nearest to this multiple; the model returns the multiple itself.)
\<close>

definition py_round2 :: "real \<Rightarrow> real" where
  "py_round2 x = of_int (round_half_even (double_of x * 100)) / 100"

text \<open>
  \<open>round(x, 2)\<close> of a numpy float (\<open>np.float64.__round__\<close>): numpy multiplies by 100,
  rounds the product, a double, to the nearest integer with ties to even, and divides
  by 100.  (Again the model returns the multiple of \<open>1/100\<close> itself.)
\<close>

definition np_round2 :: "real \<Rightarrow> real" where
  "np_round2 x = of_int (round_half_even (double_of (double_of x * 100))) / 100"

text \<open>
  \<open>base ** year\<close> for a float base and an int exponent: a zero base with a negative
  exponent raises ZeroDivisionError.
\<close>

definition py_pow :: "real \<Rightarrow> int \<Rightarrow> py_error + real" where
  "py_pow base n =
     (if 0 \<le> n then Inr (base ^ nat n)
      else if base = 0 then Inl ZeroDivisionError
      else Inr (1 / base ^ nat (- n)))"

text \<open>\<open>str(v)\<close> of an int: decimal digits, most significant first, \<open>-\<close> before a negative.\<close>

definition digit_char :: "nat \<Rightarrow> char" where
  "digit_char d = ''0123456789'' ! d"

fun digits :: "nat \<Rightarrow> string" where
  "digits n = (if n < 10 then [digit_char n] else digits (n div 10) @ [digit_char (n mod 10)])"

definition py_str :: "int \<Rightarrow> string" where
  "py_str v = (if v < 0 then CHR ''-'' # digits (nat (- v)) else digits (nat v))"

text \<open>
  \<open>int(s)\<close> of a string: an optional sign and decimal digits give the number, any other
  string raises ValueError.  (Python also accepts surrounding blanks, underscores between
  digits and non-ASCII decimal digits; no cell of the ad matrix has any of these.)
\<close>

definition digit_val :: "char \<Rightarrow> nat option" where
  "digit_val c = map_of (zip ''0123456789'' [0, 1, 2, 3, 4, 5, 6, 7, 8, 9]) c"

fun parse_digits :: "string \<Rightarrow> nat \<Rightarrow> nat option" where
  "parse_digits [] acc = Some acc"
| "parse_digits (c # cs) acc =
     (case digit_val c of None \<Rightarrow> None | Some d \<Rightarrow> parse_digits cs (acc * 10 + d))"

definition parse_unsigned :: "string \<Rightarrow> nat option" where
  "parse_unsigned s = (if s = [] then None else parse_digits s 0)"

definition py_int :: "string \<Rightarrow> py_error + int" where
  "py_int s =
     (case (case s of
              c # cs \<Rightarrow>
                if c = CHR ''-'' then map_option (\<lambda>n. - int n) (parse_unsigned cs)
                else if c = CHR ''+'' then map_option int (parse_unsigned cs)
                else map_option int (parse_unsigned s)
            | [] \<Rightarrow> None) of
        Some v \<Rightarrow> Inr v
      | None \<Rightarrow> Inl (ValueError (invalid_int_literal s)))"

text \<open>
  A pandas DataFrame built from a list of dicts: its columns are the keys in order of
  first appearance, its rows the dicts (a key missing from a row would be a NaN cell).
\<close>

type_synonym row = "(string \<times> string) list"

record DataFrame =
  columns :: "string list"
  rows :: "row list"

definition DataFrame_of :: "row list \<Rightarrow> DataFrame" where
  "DataFrame_of data =
     \<lparr>columns = rev (remdups (rev (concat (map (map fst) data)))), rows = data\<rparr>"

section \<open>value\_predictor: AdMatrixGenerator\<close>

record AdMatrixGenerator =
  fan_ranges :: "string list"
  platforms :: "string list"
  labels :: "string list"
  matrix :: DataFrame

text \<open>The four hard-coded matrices of \<open>generate_matrix\<close>: follower range, then label.\<close>

definition douyin_matrix :: "(string \<times> (string \<times> int) list) list" where
  "douyin_matrix = [
   (s_1_10wan,
     [(s_sannong, 8), (s_erciyan, 5), (s_jiankang, 6), (s_xingquaihao, 7),
      (s_qita, 4), (s_yiliaojiankang, 5), (s_yule, 12), (s_jiajujiazhuang, 8),
      (s_youmogaoxiao, 15), (s_yingshizongyi, 9), (s_qingganxinli, 12), (s_caiyijineng, 9),
      (s_jiaoyupeixun, 5), (s_wenhua, 6), (s_lvyou, 9), (s_shishizixun, 5),
      (s_shishang, 20), (s_muyingyuer, 12), (s_qiche, 6), (s_youxi, 8),
      (s_shenghuo, 15), (s_kexuekepu, 5), (s_keji, 8), (s_meizhuang, 22),
      (s_meironggenghu, 18), (s_meishi, 15), (s_zhichang, 6), (s_mengchong, 12),
      (s_caijing, 5), (s_yundongjianshen, 9), (s_yinyue, 10), (s_yanzhi, 15)]),
   (s_10_50wan,
     [(s_sannong, 12), (s_erciyan, 8), (s_jiankang, 9), (s_xingquaihao, 10),
      (s_qita, 6), (s_yiliaojiankang, 8), (s_yule, 22), (s_jiajujiazhuang, 12),
      (s_youmogaoxiao, 30), (s_yingshizongyi, 15), (s_qingganxinli, 18), (s_caiyijineng, 15),
      (s_jiaoyupeixun, 8), (s_wenhua, 9), (s_lvyou, 15), (s_shishizixun, 8),
      (s_shishang, 38), (s_muyingyuer, 18), (s_qiche, 9), (s_youxi, 12),
      (s_shenghuo, 30), (s_kexuekepu, 8), (s_keji, 12), (s_meizhuang, 45),
      (s_meironggenghu, 38), (s_meishi, 30), (s_zhichang, 9), (s_mengchong, 18),
      (s_caijing, 8), (s_yundongjianshen, 15), (s_yinyue, 18), (s_yanzhi, 30)]),
   (s_50_100wan,
     [(s_sannong, 18), (s_erciyan, 13), (s_jiankang, 15), (s_xingquaihao, 16),
      (s_qita, 10), (s_yiliaojiankang, 12), (s_yule, 45), (s_jiajujiazhuang, 18),
      (s_youmogaoxiao, 60), (s_yingshizongyi, 30), (s_qingganxinli, 38), (s_caiyijineng, 22),
      (s_jiaoyupeixun, 12), (s_wenhua, 15), (s_lvyou, 30), (s_shishizixun, 12),
      (s_shishang, 75), (s_muyingyuer, 38), (s_qiche, 15), (s_youxi, 18),
      (s_shenghuo, 60), (s_kexuekepu, 12), (s_keji, 18), (s_meizhuang, 90),
      (s_meironggenghu, 75), (s_meishi, 60), (s_zhichang, 15), (s_mengchong, 38),
      (s_caijing, 12), (s_yundongjianshen, 30), (s_yinyue, 38), (s_yanzhi, 60)]),
   (s_100_500wan,
     [(s_sannong, 35), (s_erciyan, 20), (s_jiankang, 22), (s_xingquaihao, 25),
      (s_qita, 15), (s_yiliaojiankang, 20), (s_yule, 90), (s_jiajujiazhuang, 35),
      (s_youmogaoxiao, 120), (s_yingshizongyi, 60), (s_qingganxinli, 75), (s_caiyijineng, 38),
      (s_jiaoyupeixun, 22), (s_wenhua, 22), (s_lvyou, 60), (s_shishizixun, 20),
      (s_shishang, 150), (s_muyingyuer, 75), (s_qiche, 22), (s_youxi, 35),
      (s_shenghuo, 120), (s_kexuekepu, 18), (s_keji, 35), (s_meizhuang, 180),
      (s_meironggenghu, 150), (s_meishi, 120), (s_zhichang, 22), (s_mengchong, 75),
      (s_caijing, 18), (s_yundongjianshen, 60), (s_yinyue, 75), (s_yanzhi, 120)]),
   (s_500_1000wan,
     [(s_sannong, 55), (s_erciyan, 35), (s_jiankang, 38), (s_xingquaihao, 40),
      (s_qita, 25), (s_yiliaojiankang, 35), (s_yule, 150), (s_jiajujiazhuang, 55),
      (s_youmogaoxiao, 230), (s_yingshizongyi, 120), (s_qingganxinli, 150), (s_caiyijineng, 75),
      (s_jiaoyupeixun, 38), (s_wenhua, 38), (s_lvyou, 120), (s_shishizixun, 35),
      (s_shishang, 300), (s_muyingyuer, 150), (s_qiche, 38), (s_youxi, 55),
      (s_shenghuo, 230), (s_kexuekepu, 35), (s_keji, 55), (s_meizhuang, 370),
      (s_meironggenghu, 300), (s_meishi, 230), (s_zhichang, 38), (s_mengchong, 150),
      (s_caijing, 35), (s_yundongjianshen, 120), (s_yinyue, 150), (s_yanzhi, 230)]),
   (s_1000wan_plus,
     [(s_sannong, 80), (s_erciyan, 50), (s_jiankang, 60), (s_xingquaihao, 65),
      (s_qita, 40), (s_yiliaojiankang, 55), (s_yule, 220), (s_jiajujiazhuang, 80),
      (s_youmogaoxiao, 300), (s_yingshizongyi, 180), (s_qingganxinli, 200), (s_caiyijineng, 110),
      (s_jiaoyupeixun, 50), (s_wenhua, 60), (s_lvyou, 150), (s_shishizixun, 50),
      (s_shishang, 400), (s_muyingyuer, 200), (s_qiche, 50), (s_youxi, 80),
      (s_shenghuo, 280), (s_kexuekepu, 50), (s_keji, 80), (s_meizhuang, 500),
      (s_meironggenghu, 450), (s_meishi, 350), (s_zhichang, 50), (s_mengchong, 200),
      (s_caijing, 50), (s_yundongjianshen, 150), (s_yinyue, 200), (s_yanzhi, 300)])]"

definition xiaohongshu_matrix :: "(string \<times> (string \<times> int) list) list" where
  "xiaohongshu_matrix = [
   (s_1_10wan,
     [(s_sannong, 5), (s_erciyan, 3), (s_jiankang, 6), (s_xingquaihao, 5),
      (s_qita, 3), (s_yiliaojiankang, 5), (s_yule, 8), (s_jiajujiazhuang, 9),
      (s_youmogaoxiao, 6), (s_yingshizongyi, 5), (s_qingganxinli, 9), (s_caiyijineng, 6),
      (s_jiaoyupeixun, 5), (s_wenhua, 5), (s_lvyou, 12), (s_shishizixun, 4),
      (s_shishang, 22), (s_muyingyuer, 15), (s_qiche, 5), (s_youxi, 4),
      (s_shenghuo, 12), (s_kexuekepu, 4), (s_keji, 6), (s_meizhuang, 30),
      (s_meironggenghu, 22), (s_meishi, 18), (s_zhichang, 5), (s_mengchong, 9),
      (s_caijing, 4), (s_yundongjianshen, 12), (s_yinyue, 8), (s_yanzhi, 18)]),
   (s_10_50wan,
     [(s_sannong, 9), (s_erciyan, 6), (s_jiankang, 12), (s_xingquaihao, 8),
      (s_qita, 5), (s_yiliaojiankang, 9), (s_yule, 15), (s_jiajujiazhuang, 18),
      (s_youmogaoxiao, 12), (s_yingshizongyi, 9), (s_qingganxinli, 18), (s_caiyijineng, 12),
      (s_jiaoyupeixun, 9), (s_wenhua, 9), (s_lvyou, 22), (s_shishizixun, 6),
      (s_shishang, 45), (s_muyingyuer, 30), (s_qiche, 9), (s_youxi, 6),
      (s_shenghuo, 22), (s_kexuekepu, 6), (s_keji, 12), (s_meizhuang, 60),
      (s_meironggenghu, 45), (s_meishi, 38), (s_zhichang, 9), (s_mengchong, 18),
      (s_caijing, 6), (s_yundongjianshen, 22), (s_yinyue, 15), (s_yanzhi, 38)]),
   (s_50_100wan,
     [(s_sannong, 15), (s_erciyan, 10), (s_jiankang, 20), (s_xingquaihao, 12),
      (s_qita, 8), (s_yiliaojiankang, 15), (s_yule, 25), (s_jiajujiazhuang, 30),
      (s_youmogaoxiao, 20), (s_yingshizongyi, 15), (s_qingganxinli, 30), (s_caiyijineng, 20),
      (s_jiaoyupeixun, 15), (s_wenhua, 15), (s_lvyou, 38), (s_shishizixun, 10),
      (s_shishang, 75), (s_muyingyuer, 55), (s_qiche, 15), (s_youxi, 10),
      (s_shenghuo, 38), (s_kexuekepu, 10), (s_keji, 20), (s_meizhuang, 100),
      (s_meironggenghu, 75), (s_meishi, 60), (s_zhichang, 15), (s_mengchong, 30),
      (s_caijing, 10), (s_yundongjianshen, 38), (s_yinyue, 25), (s_yanzhi, 60)]),
   (s_100_500wan,
     [(s_sannong, 25), (s_erciyan, 15), (s_jiankang, 35), (s_xingquaihao, 20),
      (s_qita, 12), (s_yiliaojiankang, 25), (s_yule, 45), (s_jiajujiazhuang, 55),
      (s_youmogaoxiao, 35), (s_yingshizongyi, 25), (s_qingganxinli, 55), (s_caiyijineng, 35),
      (s_jiaoyupeixun, 25), (s_wenhua, 25), (s_lvyou, 75), (s_shishizixun, 15),
      (s_shishang, 150), (s_muyingyuer, 90), (s_qiche, 25), (s_youxi, 15),
      (s_shenghuo, 75), (s_kexuekepu, 15), (s_keji, 35), (s_meizhuang, 200),
      (s_meironggenghu, 150), (s_meishi, 120), (s_zhichang, 25), (s_mengchong, 55),
      (s_caijing, 15), (s_yundongjianshen, 75), (s_yinyue, 45), (s_yanzhi, 120)]),
   (s_500_1000wan,
     [(s_sannong, 40), (s_erciyan, 25), (s_jiankang, 60), (s_xingquaihao, 35),
      (s_qita, 20), (s_yiliaojiankang, 40), (s_yule, 80), (s_jiajujiazhuang, 90),
      (s_youmogaoxiao, 60), (s_yingshizongyi, 40), (s_qingganxinli, 90), (s_caiyijineng, 60),
      (s_jiaoyupeixun, 40), (s_wenhua, 40), (s_lvyou, 120), (s_shishizixun, 25),
      (s_shishang, 250), (s_muyingyuer, 150), (s_qiche, 40), (s_youxi, 25),
      (s_shenghuo, 120), (s_kexuekepu, 25), (s_keji, 60), (s_meizhuang, 350),
      (s_meironggenghu, 250), (s_meishi, 200), (s_zhichang, 40), (s_mengchong, 90),
      (s_caijing, 25), (s_yundongjianshen, 120), (s_yinyue, 80), (s_yanzhi, 200)]),
   (s_1000wan_plus,
     [(s_sannong, 60), (s_erciyan, 40), (s_jiankang, 90), (s_xingquaihao, 55),
      (s_qita, 30), (s_yiliaojiankang, 60), (s_yule, 120), (s_jiajujiazhuang, 130),
      (s_youmogaoxiao, 90), (s_yingshizongyi, 60), (s_qingganxinli, 130), (s_caiyijineng, 90),
      (s_jiaoyupeixun, 60), (s_wenhua, 60), (s_lvyou, 180), (s_shishizixun, 40),
      (s_shishang, 350), (s_muyingyuer, 220), (s_qiche, 60), (s_youxi, 40),
      (s_shenghuo, 180), (s_kexuekepu, 40), (s_keji, 90), (s_meizhuang, 500),
      (s_meironggenghu, 380), (s_meishi, 300), (s_zhichang, 60), (s_mengchong, 130),
      (s_caijing, 40), (s_yundongjianshen, 180), (s_yinyue, 120), (s_yanzhi, 300)])]"

definition bilibili_matrix :: "(string \<times> (string \<times> int) list) list" where
  "bilibili_matrix = [
   (s_1_10wan,
     [(s_sannong, 4), (s_erciyan, 8), (s_jiankang, 5), (s_xingquaihao, 6),
      (s_qita, 3), (s_yiliaojiankang, 5), (s_yule, 6), (s_jiajujiazhuang, 5),
      (s_youmogaoxiao, 7), (s_yingshizongyi, 6), (s_qingganxinli, 5), (s_caiyijineng, 6),
      (s_jiaoyupeixun, 5), (s_wenhua, 6), (s_lvyou, 8), (s_shishizixun, 4),
      (s_shishang, 12), (s_muyingyuer, 6), (s_qiche, 5), (s_youxi, 10),
      (s_shenghuo, 7), (s_kexuekepu, 6), (s_keji, 8), (s_meizhuang, 15),
      (s_meironggenghu, 12), (s_meishi, 10), (s_zhichang, 5), (s_mengchong, 7),
      (s_caijing, 5), (s_yundongjianshen, 8), (s_yinyue, 7), (s_yanzhi, 10)]),
   (s_10_50wan,
     [(s_sannong, 7), (s_erciyan, 15), (s_jiankang, 9), (s_xingquaihao, 10),
      (s_qita, 5), (s_yiliaojiankang, 8), (s_yule, 12), (s_jiajujiazhuang, 9),
      (s_youmogaoxiao, 12), (s_yingshizongyi, 12), (s_qingganxinli, 9), (s_caiyijineng, 12),
      (s_jiaoyupeixun, 9), (s_wenhua, 12), (s_lvyou, 15), (s_shishizixun, 6),
      (s_shishang, 22), (s_muyingyuer, 12), (s_qiche, 9), (s_youxi, 18),
      (s_shenghuo, 12), (s_kexuekepu, 12), (s_keji, 15), (s_meizhuang, 30),
      (s_meironggenghu, 22), (s_meishi, 18), (s_zhichang, 9), (s_mengchong, 12),
      (s_caijing, 9), (s_yundongjianshen, 15), (s_yinyue, 12), (s_yanzhi, 18)]),
   (s_50_100wan,
     [(s_sannong, 12), (s_erciyan, 25), (s_jiankang, 15), (s_xingquaihao, 16),
      (s_qita, 8), (s_yiliaojiankang, 12), (s_yule, 20), (s_jiajujiazhuang, 15),
      (s_youmogaoxiao, 20), (s_yingshizongyi, 20), (s_qingganxinli, 15), (s_caiyijineng, 20),
      (s_jiaoyupeixun, 15), (s_wenhua, 20), (s_lvyou, 25), (s_shishizixun, 10),
      (s_shishang, 38), (s_muyingyuer, 20), (s_qiche, 15), (s_youxi, 30),
      (s_shenghuo, 20), (s_kexuekepu, 20), (s_keji, 25), (s_meizhuang, 55),
      (s_meironggenghu, 38), (s_meishi, 30), (s_zhichang, 15), (s_mengchong, 20),
      (s_caijing, 15), (s_yundongjianshen, 25), (s_yinyue, 20), (s_yanzhi, 30)]),
   (s_100_500wan,
     [(s_sannong, 20), (s_erciyan, 45), (s_jiankang, 25), (s_xingquaihao, 25),
      (s_qita, 12), (s_yiliaojiankang, 20), (s_yule, 35), (s_jiajujiazhuang, 25),
      (s_youmogaoxiao, 35), (s_yingshizongyi, 35), (s_qingganxinli, 25), (s_caiyijineng, 35),
      (s_jiaoyupeixun, 25), (s_wenhua, 35), (s_lvyou, 45), (s_shishizixun, 15),
      (s_shishang, 75), (s_muyingyuer, 35), (s_qiche, 25), (s_youxi, 55),
      (s_shenghuo, 35), (s_kexuekepu, 35), (s_keji, 45), (s_meizhuang, 90),
      (s_meironggenghu, 75), (s_meishi, 55), (s_zhichang, 25), (s_mengchong, 35),
      (s_caijing, 25), (s_yundongjianshen, 45), (s_yinyue, 35), (s_yanzhi, 55)]),
   (s_500_1000wan,
     [(s_sannong, 30), (s_erciyan, 70), (s_jiankang, 40), (s_xingquaihao, 40),
      (s_qita, 20), (s_yiliaojiankang, 35), (s_yule, 60), (s_jiajujiazhuang, 40),
      (s_youmogaoxiao, 60), (s_yingshizongyi, 60), (s_qingganxinli, 40), (s_caiyijineng, 60),
      (s_jiaoyupeixun, 40), (s_wenhua, 60), (s_lvyou, 70), (s_shishizixun, 25),
      (s_shishang, 120), (s_muyingyuer, 60), (s_qiche, 40), (s_youxi, 90),
      (s_shenghuo, 60), (s_kexuekepu, 60), (s_keji, 70), (s_meizhuang, 150),
      (s_meironggenghu, 120), (s_meishi, 90), (s_zhichang, 40), (s_mengchong, 60),
      (s_caijing, 40), (s_yundongjianshen, 70), (s_yinyue, 60), (s_yanzhi, 90)]),
   (s_1000wan_plus,
     [(s_sannong, 50), (s_erciyan, 100), (s_jiankang, 60), (s_xingquaihao, 65),
      (s_qita, 30), (s_yiliaojiankang, 55), (s_yule, 90), (s_jiajujiazhuang, 60),
      (s_youmogaoxiao, 90), (s_yingshizongyi, 90), (s_qingganxinli, 60), (s_caiyijineng, 90),
      (s_jiaoyupeixun, 60), (s_wenhua, 90), (s_lvyou, 100), (s_shishizixun, 40),
      (s_shishang, 180), (s_muyingyuer, 90), (s_qiche, 60), (s_youxi, 130),
      (s_shenghuo, 90), (s_kexuekepu, 90), (s_keji, 100), (s_meizhuang, 220),
      (s_meironggenghu, 180), (s_meishi, 130), (s_zhichang, 60), (s_mengchong, 90),
      (s_caijing, 60), (s_yundongjianshen, 100), (s_yinyue, 90), (s_yanzhi, 130)])]"

definition kuaishou_matrix :: "(string \<times> (string \<times> int) list) list" where
  "kuaishou_matrix = [
   (s_1_10wan,
     [(s_sannong, 10), (s_erciyan, 6), (s_jiankang, 8), (s_xingquaihao, 7),
      (s_qita, 5), (s_yiliaojiankang, 6), (s_yule, 15), (s_jiajujiazhuang, 8),
      (s_youmogaoxiao, 18), (s_yingshizongyi, 10), (s_qingganxinli, 12), (s_caiyijineng, 10),
      (s_jiaoyupeixun, 6), (s_wenhua, 8), (s_lvyou, 12), (s_shishizixun, 5),
      (s_shishang, 22), (s_muyingyuer, 15), (s_qiche, 8), (s_youxi, 10),
      (s_shenghuo, 15), (s_kexuekepu, 6), (s_keji, 8), (s_meizhuang, 25),
      (s_meironggenghu, 20), (s_meishi, 18), (s_zhichang, 8), (s_mengchong, 12),
      (s_caijing, 6), (s_yundongjianshen, 12), (s_yinyue, 10), (s_yanzhi, 18)]),
   (s_10_50wan,
     [(s_sannong, 18), (s_erciyan, 12), (s_jiankang, 15), (s_xingquaihao, 12),
      (s_qita, 8), (s_yiliaojiankang, 10), (s_yule, 30), (s_jiajujiazhuang, 15),
      (s_youmogaoxiao, 38), (s_yingshizongyi, 18), (s_qingganxinli, 22), (s_caiyijineng, 18),
      (s_jiaoyupeixun, 12), (s_wenhua, 15), (s_lvyou, 22), (s_shishizixun, 8),
      (s_shishang, 45), (s_muyingyuer, 30), (s_qiche, 15), (s_youxi, 18),
      (s_shenghuo, 30), (s_kexuekepu, 12), (s_keji, 15), (s_meizhuang, 50),
      (s_meironggenghu, 40), (s_meishi, 38), (s_zhichang, 15), (s_mengchong, 22),
      (s_caijing, 12), (s_yundongjianshen, 22), (s_yinyue, 18), (s_yanzhi, 38)]),
   (s_50_100wan,
     [(s_sannong, 30), (s_erciyan, 20), (s_jiankang, 25), (s_xingquaihao, 20),
      (s_qita, 12), (s_yiliaojiankang, 16), (s_yule, 55), (s_jiajujiazhuang, 25),
      (s_youmogaoxiao, 60), (s_yingshizongyi, 30), (s_qingganxinli, 38), (s_caiyijineng, 30),
      (s_jiaoyupeixun, 20), (s_wenhua, 25), (s_lvyou, 38), (s_shishizixun, 12),
      (s_shishang, 75), (s_muyingyuer, 55), (s_qiche, 25), (s_youxi, 30),
      (s_shenghuo, 55), (s_kexuekepu, 20), (s_keji, 25), (s_meizhuang, 90),
      (s_meironggenghu, 75), (s_meishi, 60), (s_zhichang, 25), (s_mengchong, 38),
      (s_caijing, 20), (s_yundongjianshen, 38), (s_yinyue, 30), (s_yanzhi, 60)]),
   (s_100_500wan,
     [(s_sannong, 60), (s_erciyan, 35), (s_jiankang, 45), (s_xingquaihao, 35),
      (s_qita, 20), (s_yiliaojiankang, 25), (s_yule, 90), (s_jiajujiazhuang, 45),
      (s_youmogaoxiao, 120), (s_yingshizongyi, 60), (s_qingganxinli, 75), (s_caiyijineng, 60),
      (s_jiaoyupeixun, 35), (s_wenhua, 45), (s_lvyou, 75), (s_shishizixun, 20),
      (s_shishang, 150), (s_muyingyuer, 90), (s_qiche, 45), (s_youxi, 60),
      (s_shenghuo, 90), (s_kexuekepu, 35), (s_keji, 45), (s_meizhuang, 180),
      (s_meironggenghu, 150), (s_meishi, 120), (s_zhichang, 45), (s_mengchong, 75),
      (s_caijing, 35), (s_yundongjianshen, 75), (s_yinyue, 60), (s_yanzhi, 120)]),
   (s_500_1000wan,
     [(s_sannong, 100), (s_erciyan, 60), (s_jiankang, 80), (s_xingquaihao, 60),
      (s_qita, 35), (s_yiliaojiankang, 40), (s_yule, 150), (s_jiajujiazhuang, 80),
      (s_youmogaoxiao, 200), (s_yingshizongyi, 100), (s_qingganxinli, 120), (s_caiyijineng, 100),
      (s_jiaoyupeixun, 60), (s_wenhua, 80), (s_lvyou, 120), (s_shishizixun, 35),
      (s_shishang, 250), (s_muyingyuer, 150), (s_qiche, 80), (s_youxi, 100),
      (s_shenghuo, 150), (s_kexuekepu, 60), (s_keji, 80), (s_meizhuang, 300),
      (s_meironggenghu, 250), (s_meishi, 200), (s_zhichang, 80), (s_mengchong, 120),
      (s_caijing, 60), (s_yundongjianshen, 120), (s_yinyue, 100), (s_yanzhi, 200)]),
   (s_1000wan_plus,
     [(s_sannong, 150), (s_erciyan, 90), (s_jiankang, 120), (s_xingquaihao, 90),
      (s_qita, 55), (s_yiliaojiankang, 65), (s_yule, 220), (s_jiajujiazhuang, 120),
      (s_youmogaoxiao, 300), (s_yingshizongyi, 150), (s_qingganxinli, 180), (s_caiyijineng, 150),
      (s_jiaoyupeixun, 90), (s_wenhua, 120), (s_lvyou, 180), (s_shishizixun, 55),
      (s_shishang, 350), (s_muyingyuer, 220), (s_qiche, 120), (s_youxi, 150),
      (s_shenghuo, 220), (s_kexuekepu, 90), (s_keji, 120), (s_meizhuang, 450),
      (s_meironggenghu, 380), (s_meishi, 300), (s_zhichang, 120), (s_mengchong, 180),
      (s_caijing, 90), (s_yundongjianshen, 180), (s_yinyue, 150), (s_yanzhi, 300)])]"

text \<open>
  One loop of \<open>generate_matrix\<close>: a row per follower range, starting from the two
  bookkeeping cells and assigning \<open>row[label] = str(value)\<close> for each label.
\<close>

definition platform_rows :: "string \<Rightarrow> (string \<times> (string \<times> int) list) list \<Rightarrow> row list" where
  "platform_rows platform m =
     map (\<lambda>(fan_range, fan_data).
            fold (\<lambda>(label, v) row. AList.update label (py_str v) row) fan_data
              [(s_fensiliangji, fan_range), (s_pingtai, platform)]) m"

definition generate_matrix :: DataFrame where
  "generate_matrix =
     DataFrame_of (platform_rows s_douyin douyin_matrix @
                   platform_rows s_xiaohongshu xiaohongshu_matrix @
                   platform_rows s_bzhan bilibili_matrix @
                   platform_rows s_kuaishou kuaishou_matrix)"

definition AdMatrixGenerator_init :: AdMatrixGenerator where
  "AdMatrixGenerator_init =
     \<lparr>fan_ranges = [s_1_10wan, s_10_50wan, s_50_100wan, s_100_500wan, s_500_1000wan, s_1000wan_plus],
      platforms = [s_douyin, s_xiaohongshu, s_bzhan, s_kuaishou],
      labels =
  [s_sannong, s_erciyan, s_jiankang, s_xingquaihao, s_qita, s_yiliaojiankang, s_yule, s_jiajujiazhuang, s_youmogaoxiao, s_yingshizongyi, s_qingganxinli, s_caiyijineng, s_jiaoyupeixun, s_wenhua, s_lvyou, s_shishizixun, s_shishang, s_muyingyuer, s_qiche, s_youxi, s_shenghuo, s_kexuekepu, s_keji, s_meizhuang, s_meironggenghu, s_meishi, s_zhichang, s_mengchong, s_caijing, s_yundongjianshen, s_yinyue, s_yanzhi],
      matrix = generate_matrix\<rparr>"

definition get_fan_range :: "real \<Rightarrow> string" where
  "get_fan_range fans =
     (if fans < 10 then s_1_10wan
      else if fans < 50 then s_10_50wan
      else if fans < 100 then s_50_100wan
      else if fans < 500 then s_100_500wan
      else if fans < 1000 then s_500_1000wan
      else s_1000wan_plus)"

text \<open>
  \<open>get_expected_ad_count\<close>: the rows whose range and platform cells match; none gives 0;
  otherwise, when the label is a column, \<open>int\<close> of the first such row's cell, else 0.
\<close>

definition get_expected_ad_count ::
  "AdMatrixGenerator \<Rightarrow> string \<Rightarrow> string \<Rightarrow> real \<Rightarrow> py_error + int" where
  "get_expected_ad_count self platform label fans =
     (let fan_range = get_fan_range fans;
          query_result =
            filter (\<lambda>row. map_of row s_fensiliangji = Some fan_range \<and>
                           map_of row s_pingtai = Some platform)
              (rows (matrix self))
      in case query_result of
           [] \<Rightarrow> Inr 0
         | first # others \<Rightarrow>
             if label \<in> set (columns (matrix self)) then
               (case map_of first label of
                  Some cell \<Rightarrow> py_int cell
                | None \<Rightarrow> Inl (ValueError (invalid_int_literal [])))
             else Inr 0)"

definition calculate_development_ratio ::
  "AdMatrixGenerator \<Rightarrow> string \<Rightarrow> string \<Rightarrow> real \<Rightarrow> int \<Rightarrow> py_error + real" where
  "calculate_development_ratio self platform label fans actual_ads =
     bind_result (get_expected_ad_count self platform label fans)
       (\<lambda>expected_ads.
          if expected_ads = 0 then Inr 0
          else Inr (py_round2 (real_of_int actual_ads / real_of_int expected_ads)))"

section \<open>value\_predictor: BloggerValuePredictor\<close>

text \<open>
  The inner dict of \<open>platform_params\<close> has the fixed keys \<open>k\<close>, \<open>beta\<close>, \<open>fan_limit\<close>;
  a value of \<open>label_params\<close> is the three-element list \<open>[alpha, gamma, delta]\<close>, here a
  triple.  \<open>label_colors\<close> is read by the plotting code only and is left out.
\<close>

record platform_param =
  param_k :: real
  param_beta :: real
  param_fan_limit :: real

record BloggerValuePredictor =
  platform_params :: "(string \<times> platform_param) list"
  label_params :: "(string \<times> real \<times> real \<times> real) list"

definition BloggerValuePredictor_init :: BloggerValuePredictor where
  "BloggerValuePredictor_init =
     \<lparr>platform_params = [
   (s_douyin, \<lparr>param_k = 0.75, param_beta = 1.2, param_fan_limit = 500\<rparr>),
   (s_xiaohongshu, \<lparr>param_k = 0.65, param_beta = 1.0, param_fan_limit = 300\<rparr>),
   (s_bzhan, \<lparr>param_k = 0.55, param_beta = 0.8, param_fan_limit = 200\<rparr>),
   (s_kuaishou, \<lparr>param_k = 0.45, param_beta = 0.6, param_fan_limit = 400\<rparr>)],
      label_params = [
   (s_sannong, (0.45, 1.2, 0.6)),
   (s_erciyan, (0.50, 1.4, 0.7)),
   (s_jiankang, (0.30, 0.8, 0.4)),
   (s_xingquaihao, (0.35, 0.9, 0.5)),
   (s_qita, (0.25, 0.6, 0.3)),
   (s_yiliaojiankang, (0.32, 0.7, 0.5)),
   (s_yule, (0.40, 1.1, 0.6)),
   (s_jiajujiazhuang, (0.38, 1.3, 0.7)),
   (s_youmogaoxiao, (0.42, 1.0, 0.5)),
   (s_yingshizongyi, (0.35, 1.1, 0.6)),
   (s_qingganxinli, (0.36, 1.0, 0.6)),
   (s_caiyijineng, (0.37, 1.1, 0.6)),
   (s_jiaoyupeixun, (0.33, 0.9, 0.5)),
   (s_wenhua, (0.34, 0.9, 0.5)),
   (s_lvyou, (0.39, 1.2, 0.7)),
   (s_shishizixun, (0.30, 0.7, 0.4)),
   (s_shishang, (0.43, 1.5, 0.8)),
   (s_muyingyuer, (0.40, 1.4, 0.7)),
   (s_qiche, (0.38, 1.3, 0.8)),
   (s_youxi, (0.45, 1.3, 0.7)),
   (s_shenghuo, (0.36, 1.0, 0.6)),
   (s_kexuekepu, (0.35, 1.1, 0.6)),
   (s_keji, (0.42, 1.4, 0.9)),
   (s_meizhuang, (0.48, 1.6, 0.9)),
   (s_meironggenghu, (0.45, 1.5, 0.8)),
   (s_meishi, (0.44, 1.4, 0.7)),
   (s_zhichang, (0.37, 1.0, 0.6)),
   (s_mengchong, (0.41, 1.2, 0.6)),
   (s_caijing, (0.39, 1.3, 0.8)),
   (s_yundongjianshen, (0.40, 1.2, 0.7)),
   (s_yinyue, (0.38, 1.1, 0.6)),
   (s_yanzhi, (0.46, 1.3, 0.8))]\<rparr>"

text \<open>
  \<open>get_single_ad_value\<close>: \<open>np.sqrt\<close> of a negative number is NaN (with a warning, no
  exception); the value rounded is a numpy float.
\<close>

definition get_single_ad_value ::
  "BloggerValuePredictor \<Rightarrow> string \<Rightarrow> string \<Rightarrow> real \<Rightarrow> py_error + real" where
  "get_single_ad_value self platform label fans =
     (case map_of (label_params self) label of
        None \<Rightarrow> Inl (ValueError invalid_label)
      | Some (alpha, gamma, delta) \<Rightarrow>
          if fans < 0 then Inl NonFiniteFloat
          else let base_value = 0.1 * sqrt fans * gamma in Inr (np_round2 base_value))"

text \<open>
  The price used inside the loop of \<open>predict_value\<close>: the caller's Python float, or the
  numpy float that \<open>get_single_ad_value\<close> estimated, which may be NaN.
\<close>

datatype ad_price = Explicit real | Estimated real | EstimatedNaN

text \<open>
  One iteration of the loop of \<open>predict_value\<close>.

  With a custom growth rate \<open>ft\<close> is a Python float: the power and the division by
  \<open>fans_in_wan\<close> raise ZeroDivisionError; \<open>vt\<close> is a numpy float when the price is.
  In the default regime \<open>np.log\<close> makes \<open>ft\<close>, and with it \<open>vt\<close>, a numpy float:
  \<open>np.log\<close> of a non-positive number and the division by a zero \<open>fans_in_wan\<close> give an
  infinity or NaN and no exception.
\<close>

type_synonym prediction = "int \<times> real \<times> int \<times> real"

definition predict_step ::
  "string \<Rightarrow> string \<Rightarrow> real \<Rightarrow> real \<Rightarrow> real \<Rightarrow> real \<Rightarrow> ad_price \<Rightarrow> real option \<Rightarrow> int
     \<Rightarrow> py_error + prediction" where
  "predict_step platform label fans_in_wan k alpha delta single_ad_value growth_rate year =
     (case growth_rate of
        Some rate \<Rightarrow>
          bind_result (py_pow (1 + rate / 100) year)
            (\<lambda>p. let ft = fans_in_wan * p
                 in bind_result (get_expected_ad_count AdMatrixGenerator_init platform label ft)
                      (\<lambda>nt. if fans_in_wan = 0 then Inl ZeroDivisionError
                            else case single_ad_value of
                                   EstimatedNaN \<Rightarrow> Inl NonFiniteFloat
                                 | Explicit sav \<Rightarrow>
                                     let pt = sav * (1 + (ft - fans_in_wan) / fans_in_wan * delta);
                                         vt = real_of_int nt * pt * 1.2
                                     in Inr (year, py_round2 ft, nt, py_round2 vt)
                                 | Estimated sav \<Rightarrow>
                                     let pt = sav * (1 + (ft - fans_in_wan) / fans_in_wan * delta);
                                         vt = real_of_int nt * pt * 1.2
                                     in Inr (year, py_round2 ft, nt, np_round2 vt)))
      | None \<Rightarrow>
          if year + 1 \<le> 0 \<or> fans_in_wan = 0 then Inl NonFiniteFloat
          else let ft = fans_in_wan + k * ln (real_of_int (year + 1)) * (1 + alpha)
               in bind_result (get_expected_ad_count AdMatrixGenerator_init platform label ft)
                    (\<lambda>nt. case single_ad_value of
                             EstimatedNaN \<Rightarrow> Inl NonFiniteFloat
                           | Explicit sav \<Rightarrow>
                               let pt = sav * (1 + (ft - fans_in_wan) / fans_in_wan * delta);
                                   vt = real_of_int nt * pt * 1.2
                               in Inr (year, np_round2 ft, nt, np_round2 vt)
                           | Estimated sav \<Rightarrow>
                               let pt = sav * (1 + (ft - fans_in_wan) / fans_in_wan * delta);
                                   vt = real_of_int nt * pt * 1.2
                               in Inr (year, np_round2 ft, nt, np_round2 vt)))"

text \<open>
  The loop over \<open>years\<close>: an exception in any year ends the call; a year with a
  non-finite value does not stop the loop, so a later exception still wins.
\<close>

fun predict_years :: "(int \<Rightarrow> py_error + prediction) \<Rightarrow> int list \<Rightarrow> py_error + prediction list" where
  "predict_years step [] = Inr []"
| "predict_years step (year # rest) =
     (case step year of
        Inl NonFiniteFloat \<Rightarrow>
          (case predict_years step rest of Inl e \<Rightarrow> Inl e | Inr results \<Rightarrow> Inl NonFiniteFloat)
      | Inl e \<Rightarrow> Inl e
      | Inr result \<Rightarrow>
          bind_result (predict_years step rest) (\<lambda>results. Inr (result # results)))"

definition default_years :: "int list" where
  "default_years = [1, 2, 3, 4, 5]"

definition predict_value ::
  "BloggerValuePredictor \<Rightarrow> real \<Rightarrow> string \<Rightarrow> string \<Rightarrow> real option \<Rightarrow> int list \<Rightarrow> real option
     \<Rightarrow> py_error + prediction list" where
  "predict_value self fans platform label single_ad_value years growth_rate =
     (case map_of (platform_params self) platform of
        None \<Rightarrow> Inl (ValueError invalid_platform)
      | Some params \<Rightarrow>
          (case map_of (label_params self) label of
             None \<Rightarrow> Inl (ValueError invalid_label)
           | Some (alpha, gamma, delta) \<Rightarrow>
               let k = param_k params;
                   beta = param_beta params;
                   fan_limit = param_fan_limit params;
                   price =
                     (case single_ad_value of
                        None \<Rightarrow>
                          (case get_single_ad_value self platform label (fans / 10000) of
                             Inl NonFiniteFloat \<Rightarrow> Inr EstimatedNaN
                           | Inl e \<Rightarrow> Inl e
                           | Inr v \<Rightarrow> Inr (Estimated v))
                      | Some v \<Rightarrow> Inr (Explicit v));
                   fans_in_wan = fans / 10000
               in bind_result price
                    (\<lambda>sav. predict_years
                             (predict_step platform label fans_in_wan k alpha delta sav growth_rate)
                             years)))"

section \<open>Auxiliary definitions for the proofs\<close>

text \<open>The follower counts shared by the breakpoints of all 32 curves.\<close>

definition follower_grid :: "real list" where
  "follower_grid = [0, 60000, 300000, 750000, 3000000, 7500000, 20000000]"

text \<open>
  The ad matrix seen from the proofs: the four matrices by platform, the row that
  \<open>platform_rows\<close> builds for one follower range, and the shape all four matrices have
  (the six ranges in order, each with exactly the 32 labels in order).
\<close>

definition platform_matrices :: "(string \<times> (string \<times> (string \<times> int) list) list) list" where
  "platform_matrices =
     [(s_douyin, douyin_matrix), (s_xiaohongshu, xiaohongshu_matrix),
      (s_bzhan, bilibili_matrix), (s_kuaishou, kuaishou_matrix)]"

definition make_row :: "string \<Rightarrow> string \<Rightarrow> (string \<times> int) list \<Rightarrow> row" where
  "make_row platform fan_range fan_data =
     fold (\<lambda>(label, v) row. AList.update label (py_str v) row) fan_data
       [(s_fensiliangji, fan_range), (s_pingtai, platform)]"

definition wf_matrix :: "(string \<times> (string \<times> int) list) list \<Rightarrow> bool" where
  "wf_matrix m \<longleftrightarrow>
     map fst m = fan_ranges AdMatrixGenerator_init \<and>
     (\<forall>(fan_range, fan_data) \<in> set m. map fst fan_data = labels AdMatrixGenerator_init)"

section \<open>Basic facts about results\<close>

lemma bind_result_simps [simp]:
  "bind_result (Inl e) f = Inl e" "bind_result (Inr v) f = f v"
  by (simp_all add: bind_result_def)

lemma bind_result_Inr_iff: "bind_result r f = Inr y \<longleftrightarrow> (\<exists>v. r = Inr v \<and> f v = Inr y)"
  by (cases r) auto

lemma bind_result_Inl_iff:
  "bind_result r f = Inl e \<longleftrightarrow> r = Inl e \<or> (\<exists>v. r = Inr v \<and> f v = Inl e)"
  by (cases r) auto

section \<open>The curve constructor\<close>

lemma build_segments_error: "build_segments bps = Inl e \<Longrightarrow> e = ZeroDivisionError"
  by (induction bps rule: build_segments.induct)
    (auto simp: Let_def bind_result_Inl_iff split: if_splits)

lemma build_segments_short: "length bps < 2 \<Longrightarrow> build_segments bps = Inr []"
  by (cases bps rule: build_segments.cases) auto

text \<open>The constructor raises exactly when two neighbouring breakpoints share their x.\<close>

lemma build_segments_raises_iff:
  "(\<exists>e. build_segments bps = Inl e) \<longleftrightarrow>
   (\<exists>i. Suc i < length bps \<and> fst (bps ! i) = fst (bps ! Suc i))"
proof (induction bps rule: build_segments.induct)
  case (1 x1 y1 x2 y2 rest)
  let ?all = "(x1, y1) # (x2, y2) # rest" and ?tl = "(x2, y2) # rest"
  have shift: "(\<exists>i. Suc i < length ?all \<and> fst (?all ! i) = fst (?all ! Suc i)) \<longleftrightarrow>
     x1 = x2 \<or> (\<exists>i. Suc i < length ?tl \<and> fst (?tl ! i) = fst (?tl ! Suc i))"
    (is "(\<exists>i. ?P i) \<longleftrightarrow> _ \<or> (\<exists>i. ?Q i)")
  proof
    assume "\<exists>i. ?P i"
    then obtain i where i: "?P i" ..
    show "x1 = x2 \<or> (\<exists>i. ?Q i)"
    proof (cases i)
      case 0
      with i show ?thesis by simp
    next
      case (Suc j)
      with i have "?Q j" by simp
      then show ?thesis by blast
    qed
  next
    assume "x1 = x2 \<or> (\<exists>i. ?Q i)"
    then show "\<exists>i. ?P i"
    proof
      assume "x1 = x2"
      then have "?P 0" by simp
      then show ?thesis ..
    next
      assume "\<exists>i. ?Q i"
      then obtain j where "?Q j" ..
      then have "?P (Suc j)" by simp
      then show ?thesis ..
    qed
  qed
  show ?case
  proof (cases "x2 - x1 = 0")
    case True
    then show ?thesis unfolding shift by simp
  next
    case False
    then have "(\<exists>e. build_segments ?all = Inl e) \<longleftrightarrow> (\<exists>e. build_segments ?tl = Inl e)"
      by (auto simp: Let_def bind_result_Inl_iff)
    with 1 False show ?thesis unfolding shift by simp
  qed
qed auto

text \<open>What a successful construction stores, segment by segment.\<close>

lemma build_segments_nth:
  "build_segments bps = Inr segs \<Longrightarrow>
     length segs = length bps - 1 \<and>
     (\<forall>i<length segs.
        fst (bps ! Suc i) \<noteq> fst (bps ! i) \<and>
        segs ! i =
          (fst (bps ! i), fst (bps ! Suc i),
           (snd (bps ! Suc i) - snd (bps ! i)) / (fst (bps ! Suc i) - fst (bps ! i)),
           snd (bps ! i) -
             (snd (bps ! Suc i) - snd (bps ! i)) / (fst (bps ! Suc i) - fst (bps ! i)) * fst (bps ! i)))"
proof (induction bps arbitrary: segs rule: build_segments.induct)
  case (1 x1 y1 x2 y2 rest)
  let ?all = "(x1, y1) # (x2, y2) # rest" and ?tl = "(x2, y2) # rest"
  from "1.prems" have ne: "x2 - x1 \<noteq> 0"
    by (auto split: if_splits)
  with "1.prems" obtain tl where tl: "build_segments ?tl = Inr tl"
    and segs: "segs = (x1, x2, (y2 - y1) / (x2 - x1), y1 - (y2 - y1) / (x2 - x1) * x1) # tl"
    by (auto simp: Let_def bind_result_Inr_iff)
  from "1.IH" [OF ne refl refl tl]
  have len: "length tl = length ?tl - 1"
    and nth: "\<And>i. i < length tl \<Longrightarrow>
        fst (?tl ! Suc i) \<noteq> fst (?tl ! i) \<and>
        tl ! i =
          (fst (?tl ! i), fst (?tl ! Suc i),
           (snd (?tl ! Suc i) - snd (?tl ! i)) / (fst (?tl ! Suc i) - fst (?tl ! i)),
           snd (?tl ! i) -
             (snd (?tl ! Suc i) - snd (?tl ! i)) / (fst (?tl ! Suc i) - fst (?tl ! i)) * fst (?tl ! i))"
    by auto
  show ?case
  proof (intro conjI allI impI)
    show "length segs = length ?all - 1"
      using len segs by simp
  next
    fix i assume "i < length segs"
    then show "fst (?all ! Suc i) \<noteq> fst (?all ! i)"
      using ne nth [of "i - 1"] segs by (cases i) auto
  next
    fix i assume "i < length segs"
    then show "segs ! i =
          (fst (?all ! i), fst (?all ! Suc i),
           (snd (?all ! Suc i) - snd (?all ! i)) / (fst (?all ! Suc i) - fst (?all ! i)),
           snd (?all ! i) -
             (snd (?all ! Suc i) - snd (?all ! i)) / (fst (?all ! Suc i) - fst (?all ! i)) * fst (?all ! i))"
      using nth [of "i - 1"] segs by (cases i) auto
  qed
qed auto

text \<open>Neighbouring segments meet: both lines pass through the shared breakpoint.\<close>

lemma build_segments_continuous:
  assumes "build_segments bps = Inr segs" "Suc i < length segs"
    "segs ! i = (s1, e1, m1, b1)" "segs ! Suc i = (s2, e2, m2, b2)"
  shows "e1 = s2 \<and> m1 * e1 + b1 = m2 * s2 + b2 \<and> m2 * s2 + b2 = snd (bps ! Suc i)"
proof -
  define x1 y1 x2 y2 where "x1 = fst (bps ! i)" and "y1 = snd (bps ! i)"
    and "x2 = fst (bps ! Suc i)" and "y2 = snd (bps ! Suc i)"
  from build_segments_nth [OF assms(1)] assms(2)
  have ne: "x2 - x1 \<noteq> 0"
    and left: "segs ! i = (x1, x2, (y2 - y1) / (x2 - x1), y1 - (y2 - y1) / (x2 - x1) * x1)"
    and right: "fst (segs ! Suc i) = x2"
      "snd (snd (snd (segs ! Suc i))) = y2 - fst (snd (snd (segs ! Suc i))) * x2"
    by (auto simp: x1_def x2_def y1_def y2_def)
  from left assms(3)
  have l: "e1 = x2" "m1 = (y2 - y1) / (x2 - x1)" "b1 = y1 - (y2 - y1) / (x2 - x1) * x1"
    by simp_all
  from right assms(4) have r: "s2 = x2" "b2 = y2 - m2 * x2"
    by simp_all
  have "m1 * e1 + b1 = (y2 - y1) / (x2 - x1) * (x2 - x1) + y1"
    unfolding l by (simp only: right_diff_distrib)
  also have "\<dots> = y2" using ne by simp
  finally have "m1 * e1 + b1 = y2" .
  moreover have "m2 * s2 + b2 = y2" unfolding r by simp
  ultimately show ?thesis using l r by (simp add: y2_def)
qed

lemma init_cpf_Inr_iff: "init_cpf bps = Inr f \<longleftrightarrow> build_segments bps = Inr (segments f)"
  by (cases f) (auto simp: init_cpf_def bind_result_Inr_iff)

section \<open>Evaluating a curve\<close>

lemma first_match_None_iff:
  "first_match segs x = None \<longleftrightarrow>
   (\<forall>(start, end, slope, intercept) \<in> set segs. \<not> (start \<le> x \<and> x < end))"
  by (induction segs x rule: first_match.induct) auto

lemma call_cpf_total: "segments f \<noteq> [] \<Longrightarrow> \<exists>v. call_cpf f x = Inr v"
  by (auto simp: call_cpf_def split: option.splits prod.splits)

lemma call_cpf_fallthrough:
  assumes "segments f \<noteq> []"
    and "\<forall>(start, end, slope, intercept) \<in> set (segments f). \<not> (start \<le> x \<and> x < end)"
    and "last (segments f) = (s, e, m, b)"
  shows "call_cpf f x = Inr (m * x + b)"
proof -
  from assms(2) have "first_match (segments f) x = None" by (simp add: first_match_None_iff)
  with assms(1,3) show ?thesis by (simp add: call_cpf_def)
qed

section \<open>The table of curves\<close>

lemma assign_functions_lookup:
  "assign_functions bs fs0 = Inr fs \<Longrightarrow> map_of fs c = Some f \<Longrightarrow>
     map_of fs0 c = Some f \<or> (\<exists>bps. (c, bps) \<in> set bs \<and> build_segments bps = Inr (segments f))"
proof (induction bs arbitrary: fs0)
  case Nil
  then show ?case by simp
next
  case (Cons b bs)
  obtain key bps where b: "b = (key, bps)" by (cases b)
  from Cons.prems(1) obtain g where g: "init_cpf bps = Inr g"
    and rest: "assign_functions bs (AList.update key g fs0) = Inr fs"
    by (auto simp: b bind_result_Inr_iff)
  from Cons.IH [OF rest Cons.prems(2)]
  show ?case
  proof
    assume "map_of (AList.update key g fs0) c = Some f"
    then show ?thesis using g
      by (auto simp: update_conv' b init_cpf_Inr_iff split: if_splits)
  next
    assume "\<exists>bps. (c, bps) \<in> set bs \<and> build_segments bps = Inr (segments f)"
    then show ?thesis by auto
  qed
qed

lemma assign_functions_dom:
  "assign_functions bs fs0 = Inr fs \<Longrightarrow> fst ` set fs = fst ` set fs0 \<union> fst ` set bs"
proof (induction bs arbitrary: fs0)
  case Nil
  then show ?case by simp
next
  case (Cons b bs)
  obtain key bps where b: "b = (key, bps)" by (cases b)
  from Cons.prems(1) obtain g where g: "init_cpf bps = Inr g"
    and rest: "assign_functions bs (AList.update key g fs0) = Inr fs"
    by (auto simp: b bind_result_Inr_iff)
  from Cons.IH [OF rest] show ?case
    by (auto simp: b dom_update)
qed

lemma assign_functions_ok:
  "\<forall>(c, bps) \<in> set bs. \<exists>segs. build_segments bps = Inr segs \<Longrightarrow>
   \<exists>fs. assign_functions bs fs0 = Inr fs"
proof (induction bs arbitrary: fs0)
  case Nil
  then show ?case by simp
next
  case (Cons b bs)
  obtain key bps where b: "b = (key, bps)" by (cases b)
  from Cons.prems obtain segs where "build_segments bps = Inr segs" by (auto simp: b)
  then have "init_cpf bps = Inr \<lparr>segments = segs\<rparr>" by (simp add: init_cpf_def)
  with Cons show ?case by (simp add: b)
qed

lemma douyin_breakpoints_grid: "\<forall>(c, bps) \<in> set douyin_breakpoints. map fst bps = follower_grid"
  by (simp add: douyin_breakpoints_def follower_grid_def)

lemma grid_shape:
  assumes "map fst bps = follower_grid"
  obtains y0 y1 y2 y3 y4 y5 y6 where
    "bps = [(0, y0), (60000, y1), (300000, y2), (750000, y3), (3000000, y4), (7500000, y5),
            (20000000, y6)]"
  using assms by (auto simp: follower_grid_def map_eq_Cons_conv)

lemma grid_ok:
  assumes "map fst bps = follower_grid"
  shows "\<exists>segs. build_segments bps = Inr segs"
  by (rule grid_shape [OF assms]) (simp add: Let_def)

lemma build_douyin_ok: "build_douyin_functions = Inr DOUYIN_FUNCTIONS"
proof -
  have "\<forall>(c, bps) \<in> set douyin_breakpoints. \<exists>segs. build_segments bps = Inr segs"
    using douyin_breakpoints_grid grid_ok by fastforce
  from assign_functions_ok [OF this, of "[]"]
  show ?thesis by (auto simp: DOUYIN_FUNCTIONS_def build_douyin_functions_def)
qed

lemma douyin_curve:
  assumes "map_of DOUYIN_FUNCTIONS c = Some f"
  shows "\<exists>bps. (c, bps) \<in> set douyin_breakpoints \<and> build_segments bps = Inr (segments f)"
  using assign_functions_lookup [OF build_douyin_ok [unfolded build_douyin_functions_def] assms]
  by simp

lemma douyin_keys: "fst ` set DOUYIN_FUNCTIONS = fst ` set douyin_breakpoints"
  using assign_functions_dom [OF build_douyin_ok [unfolded build_douyin_functions_def]] by simp

text \<open>Every curve of the table, written out in terms of its seven prices.\<close>

lemma douyin_shape:
  assumes "map_of DOUYIN_FUNCTIONS c = Some f"
  obtains y0 y1 y2 y3 y4 y5 y6 where
    "(c, [(0, y0), (60000, y1), (300000, y2), (750000, y3), (3000000, y4), (7500000, y5),
          (20000000, y6)]) \<in> set douyin_breakpoints"
    "segments f =
       [(0, 60000, (y1 - y0) / 60000, y0),
        (60000, 300000, (y2 - y1) / 240000, y1 - (y2 - y1) / 240000 * 60000),
        (300000, 750000, (y3 - y2) / 450000, y2 - (y3 - y2) / 450000 * 300000),
        (750000, 3000000, (y4 - y3) / 2250000, y3 - (y4 - y3) / 2250000 * 750000),
        (3000000, 7500000, (y5 - y4) / 4500000, y4 - (y5 - y4) / 4500000 * 3000000),
        (7500000, 20000000, (y6 - y5) / 12500000, y5 - (y6 - y5) / 12500000 * 7500000)]"
proof -
  from douyin_curve [OF assms] obtain bps where
    bps: "(c, bps) \<in> set douyin_breakpoints" "build_segments bps = Inr (segments f)"
    by blast
  from bps(1) douyin_breakpoints_grid have "map fst bps = follower_grid" by blast
  then show thesis
  proof (rule grid_shape)
    fix y0 y1 y2 y3 y4 y5 y6 :: real
    assume eq: "bps = [(0, y0), (60000, y1), (300000, y2), (750000, y3), (3000000, y4),
                       (7500000, y5), (20000000, y6)]"
    show thesis
    proof (rule that [of y0 y1 y2 y3 y4 y5 y6])
      show "(c, [(0, y0), (60000, y1), (300000, y2), (750000, y3), (3000000, y4), (7500000, y5),
          (20000000, y6)]) \<in> set douyin_breakpoints"
        using bps(1) eq by simp
      show "segments f =
       [(0, 60000, (y1 - y0) / 60000, y0),
        (60000, 300000, (y2 - y1) / 240000, y1 - (y2 - y1) / 240000 * 60000),
        (300000, 750000, (y3 - y2) / 450000, y2 - (y3 - y2) / 450000 * 300000),
        (750000, 3000000, (y4 - y3) / 2250000, y3 - (y4 - y3) / 2250000 * 750000),
        (3000000, 7500000, (y5 - y4) / 4500000, y4 - (y5 - y4) / 4500000 * 3000000),
        (7500000, 20000000, (y6 - y5) / 12500000, y5 - (y6 - y5) / 12500000 * 7500000)]"
        using bps(2) unfolding eq by (simp add: Let_def)
    qed
  qed
qed

lemma douyin_call_total:
  assumes "map_of DOUYIN_FUNCTIONS c = Some f"
  shows "\<exists>v. call_cpf f x = Inr v"
proof -
  have "segments f \<noteq> []" by (rule douyin_shape [OF assms]) simp
  then show ?thesis by (rule call_cpf_total)
qed

text \<open>The curve of the first label, evaluated.\<close>

lemma sannong_curve:
  "map_of DOUYIN_FUNCTIONS s_sannong = Some \<lparr>segments =
     [(0, 60000, 11/100, 200), (60000, 300000, 7/200, 4700), (300000, 750000, 14/375, 4000),
      (750000, 3000000, 2/125, 20000), (3000000, 7500000, 91/2250, - (160000/3)),
      (7500000, 20000000, 17/1250, 148000)]\<rparr>"
  by (simp add: DOUYIN_FUNCTIONS_def build_douyin_functions_def douyin_breakpoints_def
      init_cpf_def Let_def)

lemma sannong_coeffs:
  "map_of COEFF_MATRIX s_sannong =
     Some [(s_xiaohongshu, 0.5), (s_bzhan, 0.3), (s_kuaishou, 1.8), (s_douyin, 1)]"
  by (simp add: COEFF_MATRIX_def)

section \<open>The coefficient matrix\<close>

lemma coeff_keys: "map fst COEFF_MATRIX = map fst douyin_breakpoints"
  by (simp add: COEFF_MATRIX_def douyin_breakpoints_def)

lemma coeff_douyin: "\<forall>(c, coeffs) \<in> set COEFF_MATRIX. map_of coeffs s_douyin = Some 1"
  by (simp add: COEFF_MATRIX_def)

lemma coeff_row_exists:
  assumes "map_of DOUYIN_FUNCTIONS c = Some f"
  obtains coeffs where "map_of COEFF_MATRIX c = Some coeffs" "map_of coeffs s_douyin = Some 1"
proof -
  from assms have "c \<in> fst ` set DOUYIN_FUNCTIONS"
    by (metis map_of_eq_None_iff option.distinct(1))
  then have "c \<in> set (map fst COEFF_MATRIX)" by (simp add: douyin_keys coeff_keys)
  then obtain coeffs where c: "map_of COEFF_MATRIX c = Some coeffs"
    by (metis map_of_eq_None_iff not_Some_eq set_map)
  then have "(c, coeffs) \<in> set COEFF_MATRIX" by (rule map_of_SomeD)
  with coeff_douyin have "map_of coeffs s_douyin = Some 1" by blast
  with c that show thesis by blast
qed

section \<open>Rounding\<close>

lemma round_half_even_bound: "\<bar>of_int (round_half_even x) - x\<bar> \<le> 1 / 2"
proof -
  have "of_int \<lfloor>x\<rfloor> \<le> x" "x < of_int \<lfloor>x\<rfloor> + 1" by linarith+
  then show ?thesis by (auto simp: round_half_even_def Let_def)
qed

lemma real_pow2_le: "(2::int) ^ m \<le> n \<Longrightarrow> (2::real) ^ m \<le> of_int n"
proof -
  assume "(2::int) ^ m \<le> n"
  then have "(of_int (2 ^ m) :: real) \<le> of_int n" by (simp only: of_int_le_iff)
  then show ?thesis by simp
qed

lemma real_pow2_gt: "n < (2::int) ^ m \<Longrightarrow> of_int n + 1 \<le> (2::real) ^ m"
proof -
  assume "n < (2::int) ^ m"
  then have "n + 1 \<le> 2 ^ m" by simp
  then have "(of_int (n + 1) :: real) \<le> of_int (2 ^ m)" by (simp only: of_int_le_iff)
  then show ?thesis by simp
qed

lemma binary_exponent_bounds:
  assumes "0 < a"
  shows "2 powi binary_exponent a \<le> a \<and> a < 2 powi (binary_exponent a + 1)"
proof (cases "1 \<le> a")
  case True
  define n where "n = \<lfloor>a\<rfloor>"
  from True have n: "0 < n" by (simp add: n_def)
  have na: "of_int n \<le> a" "a < of_int n + 1" unfolding n_def by linarith+
  from bitlen_bounds [OF n] have lo: "2 ^ nat (bitlen n - 1) \<le> n" and hi: "n < 2 ^ nat (bitlen n)"
    by simp_all
  from n have b: "1 \<le> bitlen n" by (simp add: bitlen_alt_def)
  have e: "binary_exponent a = bitlen n - 1" using True by (simp add: binary_exponent_def n_def)
  from b have "(2::real) powi binary_exponent a = 2 ^ nat (bitlen n - 1)"
    by (simp add: e power_int_def)
  with real_pow2_le [OF lo] na have 1: "2 powi binary_exponent a \<le> a" by linarith
  from b have "(2::real) powi (binary_exponent a + 1) = 2 ^ nat (bitlen n)"
    by (simp add: e power_int_def)
  with real_pow2_gt [OF hi] na have 2: "a < 2 powi (binary_exponent a + 1)" by linarith
  from 1 2 show ?thesis ..
next
  case False
  define k where "k = \<lceil>1 / a\<rceil> - 1"
  from False assms have inv: "1 < 1 / a" by simp
  then have "2 \<le> \<lceil>1 / a\<rceil>" by linarith
  then have k: "0 < k" by (simp add: k_def)
  have ka: "of_int k < 1 / a" "1 / a \<le> of_int k + 1" unfolding k_def by linarith+
  from bitlen_bounds [OF k] have lo: "2 ^ nat (bitlen k - 1) \<le> k" and hi: "k < 2 ^ nat (bitlen k)"
    by simp_all
  from k have b: "1 \<le> bitlen k" by (simp add: bitlen_alt_def)
  have e: "binary_exponent a = - bitlen k" using False by (simp add: binary_exponent_def k_def)
  define B where "B = (2::real) ^ nat (bitlen k)"
  define C where "C = (2::real) ^ nat (bitlen k - 1)"
  have Bpos: "0 < B" and Cpos: "0 < C" by (simp_all add: B_def C_def)
  from real_pow2_gt [OF hi] ka have "1 / a \<le> B" unfolding B_def by linarith
  with assms Bpos have r3: "1 / B \<le> a" by (simp add: field_simps)
  from b have "(2::real) powi binary_exponent a = 1 / B"
    by (simp add: e power_int_def B_def field_simps)
  with r3 have 1: "2 powi binary_exponent a \<le> a" by linarith
  from real_pow2_le [OF lo] ka have "C < 1 / a" unfolding C_def by linarith
  with assms Cpos have lt: "a < 1 / C" by (simp add: field_simps)
  have "(2::real) powi (binary_exponent a + 1) = 1 / C"
  proof (cases "bitlen k = 1")
    case True
    then show ?thesis by (simp add: e C_def)
  next
    case False
    with b have "nat (- (1 - bitlen k)) = nat (bitlen k - 1)" "\<not> 0 \<le> 1 - bitlen k" by simp_all
    then show ?thesis by (simp add: e power_int_def C_def field_simps)
  qed
  with lt have 2: "a < 2 powi (binary_exponent a + 1)" by simp
  from 1 2 show ?thesis ..
qed

lemma double_of_error: "\<bar>double_of x - x\<bar> \<le> \<bar>x\<bar> / 2 ^ 53"
proof (cases "x = 0")
  case True
  then show ?thesis by (simp add: double_of_def)
next
  case False
  define a where "a = \<bar>x\<bar>"
  define ulp :: real where "ulp = 2 powi (binary_exponent a - 52)"
  define m where "m = round_half_even (a / ulp)"
  from False have a: "0 < a" by (simp add: a_def)
  have ulp_eq: "ulp = 2 powi binary_exponent a / 2 ^ 52"
    by (simp add: ulp_def power_int_diff)
  have ulp_pos: "0 < ulp" by (simp add: ulp_def)
  from binary_exponent_bounds [OF a] have "2 powi binary_exponent a \<le> a" ..
  then have half: "ulp / 2 \<le> a / 2 ^ 53" by (simp add: ulp_eq)
  have "\<bar>of_int m - a / ulp\<bar> \<le> 1 / 2" unfolding m_def by (rule round_half_even_bound)
  then have "\<bar>of_int m - a / ulp\<bar> * ulp \<le> 1 / 2 * ulp"
    using ulp_pos by (intro mult_right_mono) simp_all
  moreover have "\<bar>of_int m - a / ulp\<bar> * ulp = \<bar>of_int m * ulp - a\<bar>"
  proof -
    have "\<bar>of_int m - a / ulp\<bar> * ulp = \<bar>(of_int m - a / ulp) * ulp\<bar>"
      using ulp_pos by (simp add: abs_mult)
    also have "(of_int m - a / ulp) * ulp = of_int m * ulp - a"
      using ulp_pos by (simp add: left_diff_distrib)
    finally show ?thesis .
  qed
  ultimately have near: "\<bar>of_int m * ulp - a\<bar> \<le> a / 2 ^ 53" using half by linarith
  have d: "double_of x = sgn x * (of_int m * ulp)"
    using False by (simp add: double_of_def Let_def a_def ulp_def m_def)
  have "x = sgn x * a" by (simp add: a_def sgn_mult_abs)
  then have "double_of x - x = sgn x * (of_int m * ulp - a)"
    unfolding d by (simp add: right_diff_distrib)
  then have "\<bar>double_of x - x\<bar> = \<bar>sgn x\<bar> * \<bar>of_int m * ulp - a\<bar>"
    by (simp add: abs_mult)
  also from False have "\<bar>sgn x\<bar> = 1" by (simp add: abs_sgn_eq)
  finally show ?thesis using near by (simp add: a_def)
qed

lemma py_round2_hundredth: "\<exists>n. py_round2 x = of_int n / 100"
  by (auto simp: py_round2_def)

lemma py_round2_near_double: "\<bar>py_round2 x - double_of x\<bar> \<le> 1 / 200"
proof -
  have "\<bar>of_int (round_half_even (double_of x * 100)) - double_of x * 100\<bar> \<le> 1 / 2"
    by (rule round_half_even_bound)
  then show ?thesis by (simp add: py_round2_def field_simps)
qed

lemma py_round2_near: "\<bar>py_round2 x - x\<bar> \<le> 1 / 200 + \<bar>x\<bar> / 2 ^ 53"
  using py_round2_near_double [of x] double_of_error [of x] by linarith

section \<open>The ad matrix\<close>

section \<open>\<open>str\<close> and \<open>int\<close> are inverse on integers\<close>

lemma digit_val_digit_char: "d < 10 \<Longrightarrow> digit_val (digit_char d) = Some d"
  by (auto simp: eval_nat_numeral less_Suc_eq digit_val_def digit_char_def)

lemma digit_char_not_sign: "d < 10 \<Longrightarrow> digit_char d \<noteq> CHR ''-'' \<and> digit_char d \<noteq> CHR ''+''"
  by (auto simp: eval_nat_numeral less_Suc_eq digit_char_def)

lemma parse_digits_snoc:
  "parse_digits (s @ [c]) acc =
     (case parse_digits s acc of None \<Rightarrow> None
      | Some a \<Rightarrow> (case digit_val c of None \<Rightarrow> None | Some d \<Rightarrow> Some (a * 10 + d)))"
  by (induction s arbitrary: acc) (auto split: option.splits)

declare digits.simps [simp del]

lemma parse_digits_digits: "parse_digits (digits n) 0 = Some n"
proof (induction n rule: digits.induct)
  case (1 n)
  show ?case
  proof (cases "n < 10")
    case True
    then show ?thesis by (simp add: digits.simps [of n] digit_val_digit_char)
  next
    case False
    with 1 have "parse_digits (digits (n div 10)) 0 = Some (n div 10)" by simp
    with False show ?thesis
      by (simp add: digits.simps [of n] parse_digits_snoc digit_val_digit_char)
  qed
qed

lemma digits_hd: "\<exists>d cs. d < 10 \<and> digits n = digit_char d # cs"
proof (induction n rule: digits.induct)
  case (1 n)
  show ?case
  proof (cases "n < 10")
    case True
    then show ?thesis by (auto simp: digits.simps [of n])
  next
    case False
    with 1 obtain d cs where "d < 10" "digits (n div 10) = digit_char d # cs" by blast
    with False show ?thesis by (auto simp: digits.simps [of n])
  qed
qed

lemma py_int_py_str: "py_int (py_str v) = Inr v"
proof (cases "v < 0")
  case True
  obtain d cs where "digits (nat (- v)) = digit_char d # cs" using digits_hd by blast
  then have "digits (nat (- v)) \<noteq> []" by simp
  with True show ?thesis
    by (simp add: py_int_def py_str_def parse_unsigned_def parse_digits_digits)
next
  case False
  obtain d cs where d: "d < 10" "digits (nat v) = digit_char d # cs" using digits_hd by blast
  from parse_digits_digits [of "nat v"] d
  have "parse_digits (digit_char d # cs) 0 = Some (nat v)" by simp
  with False d digit_char_not_sign [OF d(1)] show ?thesis
    by (simp add: py_int_def py_str_def parse_unsigned_def del: parse_digits.simps)
qed

lemma map_of_fold_update:
  "map_of (fold (\<lambda>(label, v) row. AList.update label (g v) row) xs row0) key =
     (case map_of (rev xs) key of Some v \<Rightarrow> Some (g v) | None \<Rightarrow> map_of row0 key)"
proof (induction xs arbitrary: row0)
  case Nil
  then show ?case by simp
next
  case (Cons x xs)
  obtain l v where x: "x = (l, v)" by (cases x)
  show ?case
    by (simp add: x Cons.IH update_conv' map_add_def split: option.splits)
qed

lemma fst_fold_update:
  "fst ` set (fold (\<lambda>(label, v) row. AList.update label (g v) row) xs row0) =
     fst ` set row0 \<union> fst ` set xs"
proof (induction xs arbitrary: row0)
  case Nil
  then show ?case by simp
next
  case (Cons x xs)
  obtain l v where x: "x = (l, v)" by (cases x)
  show ?case by (auto simp: x Cons.IH dom_update)
qed

lemma platform_rows_make_row:
  "platform_rows platform m = map (\<lambda>(fan_range, fan_data). make_row platform fan_range fan_data) m"
  by (simp add: platform_rows_def make_row_def)

lemma map_of_rev_distinct: "distinct (map fst xs) \<Longrightarrow> map_of (rev xs) = map_of xs"
  by (simp add: distinct_map map_of_inject_set distinct_rev)

lemma labels_distinct: "distinct (labels AdMatrixGenerator_init)"
  by (simp add: AdMatrixGenerator_init_def)

lemma labels_not_meta:
  "s_fensiliangji \<notin> set (labels AdMatrixGenerator_init)"
  "s_pingtai \<notin> set (labels AdMatrixGenerator_init)"
  by (simp_all add: AdMatrixGenerator_init_def)

lemma wf_douyin: "wf_matrix douyin_matrix"
  by (simp add: wf_matrix_def douyin_matrix_def AdMatrixGenerator_init_def)

lemma wf_xiaohongshu: "wf_matrix xiaohongshu_matrix"
  by (simp add: wf_matrix_def xiaohongshu_matrix_def AdMatrixGenerator_init_def)

lemma wf_bilibili: "wf_matrix bilibili_matrix"
  by (simp add: wf_matrix_def bilibili_matrix_def AdMatrixGenerator_init_def)

lemma wf_kuaishou: "wf_matrix kuaishou_matrix"
  by (simp add: wf_matrix_def kuaishou_matrix_def AdMatrixGenerator_init_def)

lemma make_row_cells:
  assumes "map fst fan_data = labels AdMatrixGenerator_init"
  shows "map_of (make_row platform fan_range fan_data) s_fensiliangji = Some fan_range"
    and "map_of (make_row platform fan_range fan_data) s_pingtai = Some platform"
    and "key \<noteq> s_fensiliangji \<Longrightarrow> key \<noteq> s_pingtai \<Longrightarrow>
         map_of (make_row platform fan_range fan_data) key = map_option py_str (map_of fan_data key)"
proof -
  from assms labels_distinct have d: "distinct (map fst fan_data)" by simp
  have rev: "map_of (rev fan_data) = map_of fan_data" by (rule map_of_rev_distinct [OF d])
  from assms labels_not_meta have "s_fensiliangji \<notin> fst ` set fan_data" "s_pingtai \<notin> fst ` set fan_data"
    by (simp_all flip: set_map)
  then have none: "map_of fan_data s_fensiliangji = None" "map_of fan_data s_pingtai = None"
    by (simp_all add: map_of_eq_None_iff)
  show "map_of (make_row platform fan_range fan_data) s_fensiliangji = Some fan_range"
    by (simp add: make_row_def map_of_fold_update rev none)
  show "map_of (make_row platform fan_range fan_data) s_pingtai = Some platform"
    by (simp add: make_row_def map_of_fold_update rev none)
  show "map_of (make_row platform fan_range fan_data) key = map_option py_str (map_of fan_data key)"
    if "key \<noteq> s_fensiliangji" "key \<noteq> s_pingtai"
    using that by (simp add: make_row_def map_of_fold_update rev split: option.splits)
qed

lemma make_row_keys:
  assumes "map fst fan_data = labels AdMatrixGenerator_init"
  shows "fst ` set (make_row platform fan_range fan_data) =
     {s_fensiliangji, s_pingtai} \<union> set (labels AdMatrixGenerator_init)"
proof -
  have "fst ` set fan_data = set (labels AdMatrixGenerator_init)"
    using assms by (simp flip: set_map)
  then show ?thesis by (simp add: make_row_def fst_fold_update)
qed

lemma filter_platform_rows:
  assumes "\<forall>(fan_range, fan_data) \<in> set m. map fst fan_data = labels AdMatrixGenerator_init"
  shows "filter (\<lambda>row. map_of row s_fensiliangji = Some fr \<and> map_of row s_pingtai = Some p)
           (platform_rows p' m) =
         (if p' = p then map (\<lambda>(fan_range, fan_data). make_row p fan_range fan_data)
                           (filter (\<lambda>(fan_range, fan_data). fan_range = fr) m)
          else [])"
  using assms
proof (induction m)
  case Nil
  then show ?case by (simp add: platform_rows_make_row)
next
  case (Cons a m)
  obtain fan_range fan_data where a: "a = (fan_range, fan_data)" by (cases a)
  from Cons.prems have k: "map fst fan_data = labels AdMatrixGenerator_init" by (simp add: a)
  from Cons show ?case
    by (cases "p' = p") (simp_all add: a platform_rows_make_row make_row_cells(1,2) [OF k])
qed

lemma wf_matrix_rows:
  "wf_matrix m \<Longrightarrow> \<forall>(fan_range, fan_data) \<in> set m. map fst fan_data = labels AdMatrixGenerator_init"
  by (simp add: wf_matrix_def)

lemma platform_rows_keys:
  assumes "wf_matrix m" "row \<in> set (platform_rows p m)"
  shows "fst ` set row = {s_fensiliangji, s_pingtai} \<union> set (labels AdMatrixGenerator_init)"
proof -
  from assms(2) obtain fan_range fan_data where
    in_m: "(fan_range, fan_data) \<in> set m" and row: "row = make_row p fan_range fan_data"
    by (auto simp: platform_rows_make_row)
  from wf_matrix_rows [OF assms(1)] in_m
  have "map fst fan_data = labels AdMatrixGenerator_init" by blast
  then show ?thesis unfolding row by (rule make_row_keys)
qed

lemma columns_DataFrame_of:
  "set (columns (DataFrame_of data)) = (\<Union>row \<in> set data. fst ` set row)"
  by (auto simp: DataFrame_of_def)

lemma matrix_init: "matrix AdMatrixGenerator_init = generate_matrix"
  by (simp add: AdMatrixGenerator_init_def)

lemma rows_DataFrame_of: "rows (DataFrame_of data) = data"
  by (simp add: DataFrame_of_def)

lemma matrix_rows:
  "rows (matrix AdMatrixGenerator_init) =
     platform_rows s_douyin douyin_matrix @ platform_rows s_xiaohongshu xiaohongshu_matrix @
     platform_rows s_bzhan bilibili_matrix @ platform_rows s_kuaishou kuaishou_matrix"
  unfolding matrix_init generate_matrix_def by (rule rows_DataFrame_of)

lemma matrix_columns_union:
  "set (columns (matrix AdMatrixGenerator_init)) =
     (\<Union>row \<in> set (rows (matrix AdMatrixGenerator_init)). fst ` set row)"
  unfolding matrix_rows unfolding matrix_init generate_matrix_def by (rule columns_DataFrame_of)

lemma matrix_row_keys:
  assumes "row \<in> set (rows (matrix AdMatrixGenerator_init))"
  shows "fst ` set row = {s_fensiliangji, s_pingtai} \<union> set (labels AdMatrixGenerator_init)"
proof -
  from assms consider "row \<in> set (platform_rows s_douyin douyin_matrix)"
    | "row \<in> set (platform_rows s_xiaohongshu xiaohongshu_matrix)"
    | "row \<in> set (platform_rows s_bzhan bilibili_matrix)"
    | "row \<in> set (platform_rows s_kuaishou kuaishou_matrix)"
    unfolding matrix_rows by auto
  then show ?thesis
  proof cases
    case 1
    then show ?thesis by (rule platform_rows_keys [OF wf_douyin])
  next
    case 2
    then show ?thesis by (rule platform_rows_keys [OF wf_xiaohongshu])
  next
    case 3
    then show ?thesis by (rule platform_rows_keys [OF wf_bilibili])
  next
    case 4
    then show ?thesis by (rule platform_rows_keys [OF wf_kuaishou])
  qed
qed

lemma matrix_columns:
  "set (columns (matrix AdMatrixGenerator_init)) =
     {s_fensiliangji, s_pingtai} \<union> set (labels AdMatrixGenerator_init)"
proof -
  have "douyin_matrix \<noteq> []" by (simp add: douyin_matrix_def)
  then have "platform_rows s_douyin douyin_matrix \<noteq> []"
    by (simp add: platform_rows_make_row)
  then have "rows (matrix AdMatrixGenerator_init) \<noteq> []"
    unfolding matrix_rows by simp
  then obtain r where r: "r \<in> set (rows (matrix AdMatrixGenerator_init))"
    by (meson last_in_set)
  show ?thesis
  proof (intro set_eqI iffI)
    fix key assume "key \<in> set (columns (matrix AdMatrixGenerator_init))"
    then obtain row where "row \<in> set (rows (matrix AdMatrixGenerator_init))" "key \<in> fst ` set row"
      unfolding matrix_columns_union by blast
    then show "key \<in> {s_fensiliangji, s_pingtai} \<union> set (labels AdMatrixGenerator_init)"
      using matrix_row_keys by blast
  next
    fix key assume "key \<in> {s_fensiliangji, s_pingtai} \<union> set (labels AdMatrixGenerator_init)"
    then have "key \<in> fst ` set r" using matrix_row_keys [OF r] by blast
    with r show "key \<in> set (columns (matrix AdMatrixGenerator_init))"
      unfolding matrix_columns_union by blast
  qed
qed

lemma cell_lookup:
  assumes "map fst fan_data = labels AdMatrixGenerator_init"
    and "label \<noteq> s_fensiliangji" "label \<noteq> s_pingtai"
  shows "(if label \<in> set (columns (matrix AdMatrixGenerator_init)) then
            (case map_of (make_row p fr fan_data) label of
               Some cell \<Rightarrow> py_int cell
             | None \<Rightarrow> Inl (ValueError (invalid_int_literal [])))
          else Inr 0) =
         (case map_of fan_data label of None \<Rightarrow> Inr 0 | Some v \<Rightarrow> Inr v)"
proof (cases "map_of fan_data label")
  case None
  then have "label \<notin> fst ` set fan_data" by (simp add: map_of_eq_None_iff)
  then have "label \<notin> set (labels AdMatrixGenerator_init)"
    using assms(1) by (simp flip: set_map)
  with assms(2,3) None show ?thesis by (simp add: matrix_columns)
next
  case (Some v)
  then have "label \<in> fst ` set fan_data" by (metis map_of_eq_None_iff option.distinct(1))
  then have "label \<in> set (labels AdMatrixGenerator_init)"
    using assms(1) by (simp flip: set_map)
  with Some show ?thesis
    by (simp add: matrix_columns make_row_cells(3) [OF assms] py_int_py_str)
qed

lemma query_first:
  assumes "\<forall>(fan_range, fan_data) \<in> set m. map fst fan_data = labels AdMatrixGenerator_init"
    and "label \<noteq> s_fensiliangji" "label \<noteq> s_pingtai"
  shows "(case map (\<lambda>(fan_range, fan_data). make_row p fan_range fan_data)
                 (filter (\<lambda>(fan_range, fan_data). fan_range = fr) m) of
            [] \<Rightarrow> Inr 0
          | first # others \<Rightarrow>
              if label \<in> set (columns (matrix AdMatrixGenerator_init)) then
                (case map_of first label of
                   Some cell \<Rightarrow> py_int cell
                 | None \<Rightarrow> Inl (ValueError (invalid_int_literal [])))
              else Inr 0) =
         (case map_of m fr of None \<Rightarrow> Inr 0
          | Some fan_data \<Rightarrow> (case map_of fan_data label of None \<Rightarrow> Inr 0 | Some v \<Rightarrow> Inr v))"
  using assms(1)
proof (induction m)
  case Nil
  then show ?case by simp
next
  case (Cons a m)
  obtain fan_range fan_data where a: "a = (fan_range, fan_data)" by (cases a)
  from Cons.prems have k: "map fst fan_data = labels AdMatrixGenerator_init" by (simp add: a)
  show ?case
  proof (cases "fan_range = fr")
    case True
    then show ?thesis
      using cell_lookup [OF k assms(2,3), of p fr] by (simp add: a)
  next
    case False
    with Cons show ?thesis by (simp add: a)
  qed
qed

lemma query_result_eq:
  "filter (\<lambda>row. map_of row s_fensiliangji = Some fr \<and> map_of row s_pingtai = Some platform)
     (rows (matrix AdMatrixGenerator_init)) =
   (case map_of platform_matrices platform of
      None \<Rightarrow> []
    | Some m \<Rightarrow> map (\<lambda>(fan_range, fan_data). make_row platform fan_range fan_data)
                 (filter (\<lambda>(fan_range, fan_data). fan_range = fr) m))"
proof -
  note wf = wf_matrix_rows [OF wf_douyin] wf_matrix_rows [OF wf_xiaohongshu]
    wf_matrix_rows [OF wf_bilibili] wf_matrix_rows [OF wf_kuaishou]
  show ?thesis
    unfolding matrix_rows filter_append filter_platform_rows [OF wf(1)]
      filter_platform_rows [OF wf(2)] filter_platform_rows [OF wf(3)]
      filter_platform_rows [OF wf(4)] platform_matrices_def
    by simp
qed

lemma matrix_lookup_wf:
  assumes "map_of platform_matrices platform = Some m"
  shows "wf_matrix m"
proof -
  from assms have "(platform, m) \<in> set platform_matrices" by (rule map_of_SomeD)
  then show ?thesis
    using wf_douyin wf_xiaohongshu wf_bilibili wf_kuaishou
    by (auto simp: platform_matrices_def)
qed

lemma expected_ad_count_lookup:
  assumes "label \<noteq> s_fensiliangji" "label \<noteq> s_pingtai"
  shows "get_expected_ad_count AdMatrixGenerator_init platform label fans =
     (case map_of platform_matrices platform of
        None \<Rightarrow> Inr 0
      | Some m \<Rightarrow>
          (case map_of m (get_fan_range fans) of
             None \<Rightarrow> Inr 0
           | Some fan_data \<Rightarrow> (case map_of fan_data label of None \<Rightarrow> Inr 0 | Some v \<Rightarrow> Inr v)))"
proof (cases "map_of platform_matrices platform")
  case None
  then show ?thesis
    unfolding get_expected_ad_count_def Let_def query_result_eq by simp
next
  case (Some m)
  from matrix_lookup_wf [OF Some] have "wf_matrix m" .
  from query_first [OF wf_matrix_rows [OF this] assms, of platform "get_fan_range fans"] Some
  show ?thesis
    unfolding get_expected_ad_count_def Let_def query_result_eq by simp
qed

lemma expected_ad_count_total:
  assumes "label \<noteq> s_fensiliangji" "label \<noteq> s_pingtai"
  shows "\<exists>n. get_expected_ad_count AdMatrixGenerator_init platform label fans = Inr n"
  unfolding expected_ad_count_lookup [OF assms] by (simp split: option.splits)

lemma label_params_keys:
  "map fst (label_params BloggerValuePredictor_init) = labels AdMatrixGenerator_init"
  by (simp add: BloggerValuePredictor_init_def AdMatrixGenerator_init_def)

lemma valid_label_not_meta:
  assumes "map_of (label_params BloggerValuePredictor_init) label = Some lp"
  shows "label \<noteq> s_fensiliangji" "label \<noteq> s_pingtai"
proof -
  from assms have "label \<in> fst ` set (label_params BloggerValuePredictor_init)"
    by (metis map_of_eq_None_iff option.distinct(1))
  then have "label \<in> set (labels AdMatrixGenerator_init)"
    by (simp add: label_params_keys flip: set_map)
  with labels_not_meta show "label \<noteq> s_fensiliangji" "label \<noteq> s_pingtai" by blast+
qed

lemma unknown_platform_expected:
  "get_expected_ad_count AdMatrixGenerator_init ''weibo'' s_sannong 5 = Inr 0"
proof -
  have "s_sannong \<noteq> s_fensiliangji" "s_sannong \<noteq> s_pingtai" by simp_all
  from expected_ad_count_lookup [OF this, of "''weibo''" 5] show ?thesis
    by (simp add: platform_matrices_def)
qed

lemma platform_matrices_keys: "map fst platform_matrices = platforms AdMatrixGenerator_init"
  by (simp add: platform_matrices_def AdMatrixGenerator_init_def)

lemma platform_matrix_cases:
  "(platform \<notin> set (platforms AdMatrixGenerator_init) \<longrightarrow>
      map_of platform_matrices platform = None) \<and>
   (platform \<in> set (platforms AdMatrixGenerator_init) \<longrightarrow>
      (\<exists>m. map_of platform_matrices platform = Some m))"
proof -
  have "map_of platform_matrices platform = None \<longleftrightarrow>
      platform \<notin> set (map fst platform_matrices)"
    by (simp add: map_of_eq_None_iff)
  then show ?thesis unfolding platform_matrices_keys by auto
qed

lemma fan_range_listed: "get_fan_range fans \<in> set (fan_ranges AdMatrixGenerator_init)"
  by (simp add: get_fan_range_def AdMatrixGenerator_init_def)

lemma py_int_fan_range:
  "py_int (get_fan_range fans) = Inl (ValueError (invalid_int_literal (get_fan_range fans)))"
  by (simp add: get_fan_range_def py_int_def parse_unsigned_def digit_val_def)

lemma py_int_platform:
  assumes "platform \<in> set (platforms AdMatrixGenerator_init)"
  shows "py_int platform = Inl (ValueError (invalid_int_literal platform))"
proof -
  from assms consider "platform = s_douyin" | "platform = s_xiaohongshu" | "platform = s_bzhan"
    | "platform = s_kuaishou"
    by (auto simp: AdMatrixGenerator_init_def)
  then show ?thesis
    by cases (simp_all add: py_int_def parse_unsigned_def digit_val_def)
qed

lemma filter_key_first:
  assumes "map_of m key = Some v"
  shows "\<exists>rest. map f (filter (\<lambda>(k, v). k = key) m) = f (key, v) # rest"
  using assms by (induction m) (auto split: if_splits)

text \<open>Asked for one of its two bookkeeping columns, the lookup hands a text cell to \<open>int\<close>.\<close>

lemma expected_ad_count_bookkeeping:
  assumes "label = s_fensiliangji \<or> label = s_pingtai"
  shows "get_expected_ad_count AdMatrixGenerator_init platform label fans =
     (if platform \<notin> set (platforms AdMatrixGenerator_init) then Inr 0
      else Inl (ValueError (invalid_int_literal
             (if label = s_fensiliangji then get_fan_range fans else platform))))"
proof (cases "platform \<in> set (platforms AdMatrixGenerator_init)")
  case False
  with platform_matrix_cases have "map_of platform_matrices platform = None" by blast
  with False show ?thesis
    unfolding get_expected_ad_count_def Let_def query_result_eq by simp
next
  case True
  with platform_matrix_cases obtain m where m: "map_of platform_matrices platform = Some m"
    by blast
  from matrix_lookup_wf [OF m] have wf: "wf_matrix m" .
  then have "map fst m = fan_ranges AdMatrixGenerator_init" by (simp add: wf_matrix_def)
  with fan_range_listed have "get_fan_range fans \<in> set (map fst m)" by simp
  then have "map_of m (get_fan_range fans) \<noteq> None"
    unfolding map_of_eq_None_iff by simp
  then obtain fan_data where fd: "map_of m (get_fan_range fans) = Some fan_data" by blast
  then have "(get_fan_range fans, fan_data) \<in> set m" by (rule map_of_SomeD)
  with wf_matrix_rows [OF wf]
  have k: "map fst fan_data = labels AdMatrixGenerator_init" by blast
  from filter_key_first [OF fd, of "\<lambda>(fan_range, fan_data). make_row platform fan_range fan_data"]
  obtain rest where q: "map (\<lambda>(fan_range, fan_data). make_row platform fan_range fan_data)
      (filter (\<lambda>(fan_range, fan_data). fan_range = get_fan_range fans) m) =
      make_row platform (get_fan_range fans) fan_data # rest"
    by auto
  from assms have c: "label \<in> set (columns (matrix AdMatrixGenerator_init))"
    unfolding matrix_columns by auto
  have "get_expected_ad_count AdMatrixGenerator_init platform label fans =
     (case make_row platform (get_fan_range fans) fan_data # rest of
        [] \<Rightarrow> Inr 0
      | first # others \<Rightarrow>
          if label \<in> set (columns (matrix AdMatrixGenerator_init)) then
            (case map_of first label of
               Some cell \<Rightarrow> py_int cell
             | None \<Rightarrow> Inl (ValueError (invalid_int_literal [])))
          else Inr 0)"
    unfolding get_expected_ad_count_def Let_def query_result_eq
    by (simp only: m option.case q)
  also have "\<dots> = (case map_of (make_row platform (get_fan_range fans) fan_data) label of
               Some cell \<Rightarrow> py_int cell
             | None \<Rightarrow> Inl (ValueError (invalid_int_literal [])))"
    by (simp only: list.case c if_True)
  finally have eq: "get_expected_ad_count AdMatrixGenerator_init platform label fans =
     (case map_of (make_row platform (get_fan_range fans) fan_data) label of
               Some cell \<Rightarrow> py_int cell
             | None \<Rightarrow> Inl (ValueError (invalid_int_literal [])))" .
  from assms show ?thesis
  proof
    assume l: "label = s_fensiliangji"
    from eq have "get_expected_ad_count AdMatrixGenerator_init platform label fans =
        py_int (get_fan_range fans)"
      unfolding l by (simp only: make_row_cells(1) [OF k] option.case)
    with True l show ?thesis by (simp add: py_int_fan_range)
  next
    assume l: "label = s_pingtai"
    have ne: "s_pingtai \<noteq> s_fensiliangji" by simp
    from eq have "get_expected_ad_count AdMatrixGenerator_init platform label fans = py_int platform"
      unfolding l by (simp only: make_row_cells(2) [OF k] option.case)
    with True l ne show ?thesis
      by (simp add: py_int_platform [OF True])
  qed
qed

section \<open>Values used by the witnesses\<close>

lemma double_of_tie: "double_of (1 / 40) = 7205759403792794 / 2 ^ 58"
  by (simp add: double_of_def binary_exponent_def compute_bitlen round_half_even_def Let_def
      power_int_minus)

lemma py_round2_tie: "py_round2 (1 / 40) = 3 / 100"
  by (simp add: py_round2_def double_of_tie round_half_even_def Let_def)

lemma py_round2_followers: "py_round2 (100250 / 10000) = 1003 / 100"
  by (simp add: py_round2_def double_of_def binary_exponent_def compute_bitlen
      round_half_even_def Let_def power_int_minus)

lemma py_round2_revenue: "py_round2 144 = 144"
  by (simp add: py_round2_def double_of_def binary_exponent_def compute_bitlen
      round_half_even_def Let_def power_int_minus)

lemma sannong_expected_large:
  "get_expected_ad_count AdMatrixGenerator_init s_xiaohongshu s_sannong 750 = Inr 40"
proof -
  have "s_sannong \<noteq> s_fensiliangji" "s_sannong \<noteq> s_pingtai" by simp_all
  from expected_ad_count_lookup [OF this, of s_xiaohongshu 750] show ?thesis
    by (simp add: platform_matrices_def xiaohongshu_matrix_def get_fan_range_def)
qed

lemma sannong_expected_flat:
  "get_expected_ad_count AdMatrixGenerator_init s_douyin s_sannong (100250 / 10000) = Inr 12"
proof -
  have "s_sannong \<noteq> s_fensiliangji" "s_sannong \<noteq> s_pingtai" by simp_all
  from expected_ad_count_lookup [OF this, of s_douyin "100250 / 10000"] show ?thesis
    by (simp add: platform_matrices_def douyin_matrix_def get_fan_range_def)
qed

section \<open>One year of the prediction\<close>

lemma py_pow_one: "py_pow 1 n = Inr 1"
  by (simp add: py_pow_def)

lemma predict_step_flat:
  assumes "fans_in_wan \<noteq> 0"
    and "get_expected_ad_count AdMatrixGenerator_init platform label fans_in_wan = Inr nt"
  shows "predict_step platform label fans_in_wan k alpha delta (Explicit sav) (Some 0) year =
     Inr (year, py_round2 fans_in_wan, nt, py_round2 (real_of_int nt * sav * 1.2))"
  using assms by (simp add: predict_step_def py_pow_one Let_def)

lemma predict_step_zero_fans:
  assumes "label \<noteq> s_fensiliangji" "label \<noteq> s_pingtai"
  shows "predict_step platform label 0 k alpha delta sav (Some rate) year = Inl ZeroDivisionError"
proof (cases "py_pow (1 + rate / 100) year")
  case (Inl e)
  then have "e = ZeroDivisionError" by (auto simp: py_pow_def split: if_splits)
  with Inl show ?thesis by (simp add: predict_step_def)
next
  case (Inr p)
  obtain nt where "get_expected_ad_count AdMatrixGenerator_init platform label (0 * p) = Inr nt"
    using expected_ad_count_total [OF assms] by blast
  with Inr show ?thesis by (simp add: predict_step_def Let_def)
qed

section \<open>The claims\<close>

text \<open>
  Claim C1, as the code has it.  The specification asks \<open>get_price\<close> to reject a negative
  follower count; the code has no such check.  At \<open>followers = -1\<close> the label of the
  first curve is priced at 147999.9864.
\<close>

theorem get_price_negative_counterexample:
  "get_price s_douyin s_sannong (- 1) [] = Inr (1479999864 / 10000)"
  by (simp add: sannong_curve sannong_coeffs get_price_def call_cpf_def dict_get_def)

text \<open>
  Claim C1 (amended): for every negative follower count, every label of the curve table
  and every platform, \<open>get_price\<close> does not fail; it returns a price.
\<close>

theorem get_price_negative_returns:
  assumes "followers < 0" and "map_of DOUYIN_FUNCTIONS category = Some f"
  shows "\<exists>price. get_price platform category followers kwargs = Inr price"
proof -
  from douyin_call_total [OF assms(2)] obtain v where v: "call_cpf f followers = Inr v" ..
  from assms(2) obtain coeffs where "map_of COEFF_MATRIX category = Some coeffs"
    by (rule coeff_row_exists)
  with v assms(2) show ?thesis by (simp add: get_price_def Let_def)
qed

theorem get_price_negative_returns_witness:
  "(- 5 :: real) < 0 \<and> (\<exists>f. map_of DOUYIN_FUNCTIONS s_sannong = Some f) \<and>
   (\<exists>price. get_price s_kuaishou s_sannong (- 5) [] = Inr price)"
proof -
  have neg: "(- 5 :: real) < 0" by simp
  from get_price_negative_returns [OF neg sannong_curve, of s_kuaishou "[]"] neg sannong_curve
  show ?thesis by blast
qed

text \<open>
  Claim C2, as the code has it.  The constructor accepts an empty breakpoint list, a
  single breakpoint, and breakpoints whose x-values decrease.
\<close>

theorem init_cpf_accepts_bad_input_counterexample:
  "init_cpf [] = Inr \<lparr>segments = []\<rparr> \<and>
   init_cpf [(5, 100)] = Inr \<lparr>segments = []\<rparr> \<and>
   init_cpf [(10, 100), (0, 200)] = Inr \<lparr>segments = [(10, 0, - 10, 200)]\<rparr>"
  by (simp add: init_cpf_def Let_def)

text \<open>
  Claim C2 (amended): the constructor validates nothing.  It raises exactly when two
  consecutive breakpoints have the same x-value, and then the error is the
  ZeroDivisionError of the slope; with fewer than two breakpoints it returns a curve
  without segments.
\<close>

theorem init_cpf_raises_iff:
  "((\<exists>e. init_cpf bps = Inl e) \<longleftrightarrow>
      (\<exists>i. Suc i < length bps \<and> fst (bps ! i) = fst (bps ! Suc i))) \<and>
   (\<forall>e. init_cpf bps = Inl e \<longrightarrow> e = ZeroDivisionError) \<and>
   (length bps < 2 \<longrightarrow> init_cpf bps = Inr \<lparr>segments = []\<rparr>)"
proof (intro conjI allI impI)
  have "(\<exists>e. init_cpf bps = Inl e) \<longleftrightarrow> (\<exists>e. build_segments bps = Inl e)"
    by (auto simp: init_cpf_def bind_result_Inl_iff)
  then show "(\<exists>e. init_cpf bps = Inl e) \<longleftrightarrow>
      (\<exists>i. Suc i < length bps \<and> fst (bps ! i) = fst (bps ! Suc i))"
    by (simp add: build_segments_raises_iff)
next
  fix e assume "init_cpf bps = Inl e"
  then have "build_segments bps = Inl e" by (auto simp: init_cpf_def bind_result_Inl_iff)
  then show "e = ZeroDivisionError" by (rule build_segments_error)
next
  assume "length bps < 2"
  then show "init_cpf bps = Inr \<lparr>segments = []\<rparr>"
    by (simp add: init_cpf_def build_segments_short)
qed

theorem init_cpf_raises_iff_witness:
  "init_cpf [(0, 200), (0, 6800)] = Inl ZeroDivisionError \<and>
   init_cpf [(0, 200)] = Inr \<lparr>segments = []\<rparr>"
proof -
  let ?dup = "[(0, 200), (0, 6800)] :: (real \<times> real) list"
  have "Suc 0 < length ?dup \<and> fst (?dup ! 0) = fst (?dup ! Suc 0)" by simp
  then have "\<exists>i. Suc i < length ?dup \<and> fst (?dup ! i) = fst (?dup ! Suc i)" ..
  with init_cpf_raises_iff [of ?dup]
  have "init_cpf ?dup = Inl ZeroDivisionError" by blast
  moreover have "length [(0::real, 200::real)] < 2" by simp
  with init_cpf_raises_iff [of "[(0, 200)]"]
  have "init_cpf [(0, 200)] = Inr \<lparr>segments = []\<rparr>" by blast
  ultimately show ?thesis by simp
qed

text \<open>
  Claim C3: for the first label on the reference platform, the price at 0 followers is
  200, at 60000 followers 6800, and at 30000 followers 3500; the same values are what the
  label's curve returns.
\<close>

theorem sannong_reference_prices:
  "\<exists>f. map_of DOUYIN_FUNCTIONS s_sannong = Some f \<and>
       call_cpf f 0 = Inr 200 \<and> call_cpf f 60000 = Inr 6800 \<and> call_cpf f 30000 = Inr 3500 \<and>
       get_price s_douyin s_sannong 0 [] = Inr 200 \<and>
       get_price s_douyin s_sannong 60000 [] = Inr 6800 \<and>
       get_price s_douyin s_sannong 30000 [] = Inr 3500"
  by (simp add: sannong_curve sannong_coeffs get_price_def call_cpf_def dict_get_def)

text \<open>
  Claim C4: in each of the 32 curves, two adjacent segments share their boundary, the
  line of the left segment and the line of the right segment have the same value there,
  and that value is what the curve returns at the boundary.
\<close>

theorem douyin_curves_continuous:
  assumes "map_of DOUYIN_FUNCTIONS c = Some f"
    and "Suc i < length (segments f)"
    and "segments f ! i = (s1, e1, m1, b1)"
    and "segments f ! Suc i = (s2, e2, m2, b2)"
  shows "e1 = s2 \<and> m1 * e1 + b1 = m2 * s2 + b2 \<and> call_cpf f s2 = Inr (m2 * s2 + b2)"
proof -
  from douyin_curve [OF assms(1)] obtain bps where
    bps: "(c, bps) \<in> set douyin_breakpoints" "build_segments bps = Inr (segments f)"
    by blast
  from build_segments_continuous [OF bps(2) assms(2,3,4)]
  have cont: "e1 = s2" "m1 * e1 + b1 = m2 * s2 + b2" by blast+
  obtain m0' b0' m1' b1' m2' b2' m3' b3' m4' b4' m5' b5' where
    segs: "segments f = [(0, 60000, m0', b0'), (60000, 300000, m1', b1'), (300000, 750000, m2', b2'),
       (750000, 3000000, m3', b3'), (3000000, 7500000, m4', b4'), (7500000, 20000000, m5', b5')]"
    by (rule douyin_shape [OF assms(1)]) blast
  from assms(2) segs have "i < 5" by simp
  then consider "i = 0" | "i = 1" | "i = 2" | "i = 3" | "i = 4" by linarith
  then have "call_cpf f s2 = Inr (m2 * s2 + b2)"
    using assms(4) by cases (simp_all add: segs call_cpf_def)
  with cont show ?thesis by simp
qed

theorem douyin_curves_continuous_witness:
  "(\<exists>f. map_of DOUYIN_FUNCTIONS s_sannong = Some f \<and> Suc 0 < length (segments f) \<and>
        segments f ! 0 = (0, 60000, 11/100, 200) \<and>
        segments f ! Suc 0 = (60000, 300000, 7/200, 4700) \<and>
        call_cpf f 60000 = Inr (7/200 * 60000 + 4700)) \<and>
   (11/100 :: real) * 60000 + 200 = 7/200 * 60000 + 4700"
proof -
  let ?f = "\<lparr>segments =
     [(0, 60000, 11/100, 200), (60000, 300000, 7/200, 4700), (300000, 750000, 14/375, 4000),
      (750000, 3000000, 2/125, 20000), (3000000, 7500000, 91/2250, - (160000/3)),
      (7500000, 20000000, 17/1250, 148000)]\<rparr>"
  have len: "Suc 0 < length (segments ?f)" by simp
  have l: "segments ?f ! 0 = (0, 60000, 11/100, 200)" by simp
  have r: "segments ?f ! Suc 0 = (60000, 300000, 7/200, 4700)" by simp
  from douyin_curves_continuous [OF sannong_curve len l r]
  have "(11/100 :: real) * 60000 + 200 = 7/200 * 60000 + 4700"
    and "call_cpf ?f 60000 = Inr (7/200 * 60000 + 4700)" by blast+
  with sannong_curve len l r show ?thesis by blast
qed

text \<open>
  Claim C5: for every label of the curve table and every follower count \<open>\<ge> 0\<close>, the
  price on the reference platform is the value of the label's curve (no celebrity bonus
  being asked for).
\<close>

theorem coefficient_neutrality:
  assumes "map_of DOUYIN_FUNCTIONS category = Some f" and "0 \<le> followers"
    and "\<not> (category = s_yingshizongyi \<and> dict_get kwargs ''is_celebrity'' False)"
  shows "\<exists>base_price. call_cpf f followers = Inr base_price \<and>
           get_price s_douyin category followers kwargs = Inr base_price"
proof -
  from douyin_call_total [OF assms(1)] obtain v where v: "call_cpf f followers = Inr v" ..
  from assms(1) obtain coeffs where
    "map_of COEFF_MATRIX category = Some coeffs" "map_of coeffs s_douyin = Some 1"
    by (rule coeff_row_exists)
  with v assms(1,3) have "get_price s_douyin category followers kwargs = Inr v"
    by (auto simp: get_price_def Let_def dict_get_def)
  with v show ?thesis by simp
qed

theorem coefficient_neutrality_witness:
  "(\<exists>f. map_of DOUYIN_FUNCTIONS s_sannong = Some f \<and> call_cpf f 30000 = Inr 3500) \<and>
   (0::real) \<le> 30000 \<and> \<not> (s_sannong = s_yingshizongyi \<and> dict_get [] ''is_celebrity'' False) \<and>
   get_price s_douyin s_sannong 30000 [] = Inr 3500"
proof -
  let ?f = "\<lparr>segments =
     [(0, 60000, 11/100, 200), (60000, 300000, 7/200, 4700), (300000, 750000, 14/375, 4000),
      (750000, 3000000, 2/125, 20000), (3000000, 7500000, 91/2250, - (160000/3)),
      (7500000, 20000000, 17/1250, 148000)]\<rparr>"
  have h2: "(0::real) \<le> 30000" by simp
  have h3: "\<not> (s_sannong = s_yingshizongyi \<and> dict_get [] ''is_celebrity'' False)" by simp
  have v: "call_cpf ?f 30000 = Inr 3500" by (simp add: call_cpf_def)
  from coefficient_neutrality [OF sannong_curve h2 h3] v
  have "get_price s_douyin s_sannong 30000 [] = Inr 3500" by simp
  with sannong_curve v h2 h3 show ?thesis by blast
qed

text \<open>
  Claim C6: a category that is not a key of the curve table makes \<open>get_price\<close> raise the
  ValueError for an unsupported label; a platform that is not a key of a known
  category's coefficient row is priced with the coefficient 1.0.
\<close>

theorem get_price_asymmetric_lookup:
  "(map_of DOUYIN_FUNCTIONS category = None \<longrightarrow>
      get_price platform category followers kwargs = Inl (ValueError (unsupported_label category))) \<and>
   (map_of DOUYIN_FUNCTIONS category = Some f \<and> map_of COEFF_MATRIX category = Some coeffs \<and>
    map_of coeffs platform = None \<longrightarrow>
      (\<exists>base_price. call_cpf f followers = Inr base_price \<and>
         get_price platform category followers kwargs =
           Inr ((if category = s_yingshizongyi \<and> dict_get kwargs ''is_celebrity'' False
                 then base_price * 2 else base_price) * 1.0)))"
proof (intro conjI impI)
  assume "map_of DOUYIN_FUNCTIONS category = None"
  then show "get_price platform category followers kwargs =
      Inl (ValueError (unsupported_label category))"
    by (simp add: get_price_def)
next
  assume a: "map_of DOUYIN_FUNCTIONS category = Some f \<and>
    map_of COEFF_MATRIX category = Some coeffs \<and> map_of coeffs platform = None"
  then have f: "map_of DOUYIN_FUNCTIONS category = Some f" by simp
  from douyin_call_total [OF f] obtain v where v: "call_cpf f followers = Inr v" ..
  with a have "get_price platform category followers kwargs =
           Inr ((if category = s_yingshizongyi \<and> dict_get kwargs ''is_celebrity'' False
                 then v * 2 else v) * 1.0)"
    by (simp add: get_price_def Let_def dict_get_def)
  with v show "\<exists>base_price. call_cpf f followers = Inr base_price \<and>
         get_price platform category followers kwargs =
           Inr ((if category = s_yingshizongyi \<and> dict_get kwargs ''is_celebrity'' False
                 then base_price * 2 else base_price) * 1.0)"
    by blast
qed

theorem get_price_asymmetric_lookup_witness:
  "map_of DOUYIN_FUNCTIONS ''pets'' = None \<and>
   get_price s_douyin ''pets'' 30000 [] = Inl (ValueError (unsupported_label ''pets'')) \<and>
   map_of [(s_xiaohongshu, 0.5), (s_bzhan, 0.3), (s_kuaishou, 1.8), (s_douyin, 1::real)] ''weibo''
     = None \<and>
   get_price ''weibo'' s_sannong 30000 [] = Inr 3500"
proof -
  let ?f = "\<lparr>segments =
     [(0, 60000, 11/100, 200), (60000, 300000, 7/200, 4700), (300000, 750000, 14/375, 4000),
      (750000, 3000000, 2/125, 20000), (3000000, 7500000, 91/2250, - (160000/3)),
      (7500000, 20000000, 17/1250, 148000)]\<rparr>"
  let ?row = "[(s_xiaohongshu, 0.5), (s_bzhan, 0.3), (s_kuaishou, 1.8), (s_douyin, 1::real)]"
  have "''pets'' \<notin> fst ` set douyin_breakpoints" by (simp add: douyin_breakpoints_def)
  then have none: "map_of DOUYIN_FUNCTIONS ''pets'' = None"
    by (simp add: map_of_eq_None_iff douyin_keys)
  have p: "map_of ?row ''weibo'' = None" by simp
  have v: "call_cpf ?f 30000 = Inr 3500" by (simp add: call_cpf_def)
  from get_price_asymmetric_lookup [where category = "''pets''" and platform = s_douyin
      and followers = 30000 and kwargs = "[]"] none
  have 1: "get_price s_douyin ''pets'' 30000 [] = Inl (ValueError (unsupported_label ''pets''))"
    by blast
  from get_price_asymmetric_lookup [where category = s_sannong and f = ?f and coeffs = ?row
      and platform = "''weibo''" and followers = 30000 and kwargs = "[]"]
    sannong_curve sannong_coeffs p v
  have 2: "get_price ''weibo'' s_sannong 30000 [] = Inr 3500" by simp
  from none 1 p 2 show ?thesis by blast
qed

text \<open>
  Claim C7: whenever \<open>get_expected_ad_count\<close> returns a count, the development ratio
  is 0 if that count is 0 (nothing is raised) and otherwise the actual count divided by
  it, rounded to 2 decimal places: a whole number of hundredths, the one \<open>round(x, 2)\<close>
  picks for the double that holds the quotient, and within \<open>1/200\<close> of the quotient up
  to the error of that double.  The ratio raises only when the lookup of the count does,
  and then with the same error.  The lookup returns a count for every label other than
  the two bookkeeping column names of the matrix; for those two it returns 0 when the
  platform is not one of the four, and otherwise raises the ValueError of \<open>int\<close> on a
  text cell.
\<close>

theorem development_ratio_zero_guard:
  "(get_expected_ad_count self platform label fans = Inr expected_ads \<longrightarrow>
      (expected_ads = 0 \<longrightarrow>
         calculate_development_ratio self platform label fans actual_ads = Inr 0) \<and>
      (expected_ads \<noteq> 0 \<longrightarrow>
         (\<exists>hundredths.
            calculate_development_ratio self platform label fans actual_ads =
              Inr (of_int hundredths / 100) \<and>
            of_int hundredths / 100 =
              py_round2 (real_of_int actual_ads / real_of_int expected_ads) \<and>
            \<bar>of_int hundredths / 100 - real_of_int actual_ads / real_of_int expected_ads\<bar>
              \<le> 1 / 200 + \<bar>real_of_int actual_ads / real_of_int expected_ads\<bar> / 2 ^ 53))) \<and>
   (get_expected_ad_count self platform label fans = Inl e \<longrightarrow>
      calculate_development_ratio self platform label fans actual_ads = Inl e) \<and>
   (category \<noteq> s_fensiliangji \<and> category \<noteq> s_pingtai \<longrightarrow>
      (\<exists>n. get_expected_ad_count AdMatrixGenerator_init platform category fans = Inr n)) \<and>
   (category = s_fensiliangji \<or> category = s_pingtai \<longrightarrow>
      get_expected_ad_count AdMatrixGenerator_init platform category fans =
        (if platform \<notin> set (platforms AdMatrixGenerator_init) then Inr 0
         else Inl (ValueError (invalid_int_literal
                (if category = s_fensiliangji then get_fan_range fans else platform)))))"
proof (intro conjI impI)
  assume "get_expected_ad_count self platform label fans = Inr expected_ads" "expected_ads = 0"
  then show "calculate_development_ratio self platform label fans actual_ads = Inr 0"
    by (simp add: calculate_development_ratio_def)
next
  let ?q = "real_of_int actual_ads / real_of_int expected_ads"
  assume "get_expected_ad_count self platform label fans = Inr expected_ads" "expected_ads \<noteq> 0"
  then have r: "calculate_development_ratio self platform label fans actual_ads =
      Inr (py_round2 ?q)"
    by (simp add: calculate_development_ratio_def)
  obtain n where n: "py_round2 ?q = of_int n / 100" using py_round2_hundredth by blast
  have "\<bar>py_round2 ?q - ?q\<bar> \<le> 1 / 200 + \<bar>?q\<bar> / 2 ^ 53" by (rule py_round2_near)
  with r n show "\<exists>hundredths.
            calculate_development_ratio self platform label fans actual_ads =
              Inr (of_int hundredths / 100) \<and>
            of_int hundredths / 100 = py_round2 ?q \<and>
            \<bar>of_int hundredths / 100 - ?q\<bar> \<le> 1 / 200 + \<bar>?q\<bar> / 2 ^ 53"
    by (intro exI [of _ n]) simp
next
  assume "get_expected_ad_count self platform label fans = Inl e"
  then show "calculate_development_ratio self platform label fans actual_ads = Inl e"
    by (simp add: calculate_development_ratio_def)
next
  assume "category \<noteq> s_fensiliangji \<and> category \<noteq> s_pingtai"
  then show "\<exists>n. get_expected_ad_count AdMatrixGenerator_init platform category fans = Inr n"
    using expected_ad_count_total by blast
next
  assume "category = s_fensiliangji \<or> category = s_pingtai"
  then show "get_expected_ad_count AdMatrixGenerator_init platform category fans =
        (if platform \<notin> set (platforms AdMatrixGenerator_init) then Inr 0
         else Inl (ValueError (invalid_int_literal
                (if category = s_fensiliangji then get_fan_range fans else platform))))"
    by (rule expected_ad_count_bookkeeping)
qed

theorem development_ratio_zero_guard_witness:
  "get_expected_ad_count AdMatrixGenerator_init s_xiaohongshu s_sannong 750 = Inr 40 \<and>
   calculate_development_ratio AdMatrixGenerator_init s_xiaohongshu s_sannong 750 1 = Inr (3 / 100) \<and>
   get_expected_ad_count AdMatrixGenerator_init ''weibo'' s_sannong 5 = Inr 0 \<and>
   calculate_development_ratio AdMatrixGenerator_init ''weibo'' s_sannong 5 4 = Inr 0 \<and>
   get_expected_ad_count AdMatrixGenerator_init s_douyin s_pingtai 5 =
     Inl (ValueError (invalid_int_literal s_douyin)) \<and>
   calculate_development_ratio AdMatrixGenerator_init s_douyin s_pingtai 5 4 =
     Inl (ValueError (invalid_int_literal s_douyin))"
proof -
  note tie = development_ratio_zero_guard [where self = AdMatrixGenerator_init
      and platform = s_xiaohongshu and label = s_sannong and category = s_sannong and fans = 750
      and expected_ads = 40 and actual_ads = 1]
  note unknown = development_ratio_zero_guard [where self = AdMatrixGenerator_init
      and platform = "''weibo''" and label = s_sannong and category = s_sannong and fans = 5
      and expected_ads = 0 and actual_ads = 4]
  note column = development_ratio_zero_guard [where self = AdMatrixGenerator_init
      and platform = s_douyin and label = s_pingtai and category = s_pingtai and fans = 5
      and e = "ValueError (invalid_int_literal s_douyin)" and actual_ads = 4]
  from tie sannong_expected_large obtain hundredths where
    "calculate_development_ratio AdMatrixGenerator_init s_xiaohongshu s_sannong 750 1 =
       Inr (of_int hundredths / 100)"
    "of_int hundredths / 100 = py_round2 (real_of_int 1 / real_of_int 40)"
    by auto
  with py_round2_tie
  have 1: "calculate_development_ratio AdMatrixGenerator_init s_xiaohongshu s_sannong 750 1 =
      Inr (3 / 100)"
    by simp
  from unknown unknown_platform_expected
  have 2: "calculate_development_ratio AdMatrixGenerator_init ''weibo'' s_sannong 5 4 = Inr 0"
    by simp
  have p: "s_douyin \<in> set (platforms AdMatrixGenerator_init)"
    by (simp add: AdMatrixGenerator_init_def)
  have ne: "s_pingtai \<noteq> s_fensiliangji" by simp
  from column p ne
  have 3: "get_expected_ad_count AdMatrixGenerator_init s_douyin s_pingtai 5 =
     Inl (ValueError (invalid_int_literal s_douyin))"
    by simp
  with column
  have 4: "calculate_development_ratio AdMatrixGenerator_init s_douyin s_pingtai 5 4 =
     Inl (ValueError (invalid_int_literal s_douyin))"
    by blast
  from 1 2 3 4 sannong_expected_large unknown_platform_expected show ?thesis by blast
qed

text \<open>
  Claim C8: with a positive follower count, a platform of \<open>platform_params\<close>, a label
  of \<open>label_params\<close>, an explicit ad price and a growth rate of 0, \<open>predict_value\<close>
  returns five rows for the years 1 to 5; each has the initial follower count (in units
  of ten thousand, rounded to 2 decimals, as every row reports it), the same ad count and
  the same revenue.
\<close>

theorem predict_value_zero_growth:
  assumes "0 < fans"
    and "map_of (platform_params BloggerValuePredictor_init) platform = Some params"
    and "map_of (label_params BloggerValuePredictor_init) label = Some lp"
  shows "\<exists>nt. get_expected_ad_count AdMatrixGenerator_init platform label (fans / 10000) = Inr nt \<and>
     predict_value BloggerValuePredictor_init fans platform label (Some single_ad_value)
         default_years (Some 0) =
       Inr (map (\<lambda>year. (year, py_round2 (fans / 10000), nt,
                          py_round2 (real_of_int nt * single_ad_value * 1.2)))
              [1, 2, 3, 4, 5])"
proof -
  obtain alpha gamma delta where lp: "lp = (alpha, gamma, delta)" by (cases lp)
  from valid_label_not_meta [OF assms(3)] obtain nt where
    nt: "get_expected_ad_count AdMatrixGenerator_init platform label (fans / 10000) = Inr nt"
    using expected_ad_count_total by blast
  from assms(1) have ne: "fans / 10000 \<noteq> 0" by simp
  note step = predict_step_flat [OF ne nt]
  have "predict_value BloggerValuePredictor_init fans platform label (Some single_ad_value)
         default_years (Some 0) =
       Inr (map (\<lambda>year. (year, py_round2 (fans / 10000), nt,
                          py_round2 (real_of_int nt * single_ad_value * 1.2)))
              [1, 2, 3, 4, 5])"
    using assms(2,3) by (simp add: predict_value_def lp default_years_def Let_def step)
  with nt show ?thesis by blast
qed

theorem predict_value_zero_growth_witness:
  "(0::real) < 100250 \<and>
   map_of (platform_params BloggerValuePredictor_init) s_douyin =
     Some \<lparr>param_k = 0.75, param_beta = 1.2, param_fan_limit = 500\<rparr> \<and>
   map_of (label_params BloggerValuePredictor_init) s_sannong = Some (0.45, 1.2, 0.6) \<and>
   predict_value BloggerValuePredictor_init 100250 s_douyin s_sannong (Some 10) default_years (Some 0)
     = Inr [(1, 1003 / 100, 12, 144), (2, 1003 / 100, 12, 144), (3, 1003 / 100, 12, 144),
            (4, 1003 / 100, 12, 144), (5, 1003 / 100, 12, 144)]"
proof -
  have pos: "(0::real) < 100250" by simp
  have p: "map_of (platform_params BloggerValuePredictor_init) s_douyin =
     Some \<lparr>param_k = 0.75, param_beta = 1.2, param_fan_limit = 500\<rparr>"
    by (simp add: BloggerValuePredictor_init_def)
  have l: "map_of (label_params BloggerValuePredictor_init) s_sannong = Some (0.45, 1.2, 0.6)"
    by (simp add: BloggerValuePredictor_init_def)
  have rev: "real_of_int 12 * 10 * 1.2 = (144::real)" by simp
  from predict_value_zero_growth [OF pos p l, of 10]
  obtain nt where
    nt: "get_expected_ad_count AdMatrixGenerator_init s_douyin s_sannong (100250 / 10000) = Inr nt"
    and pv: "predict_value BloggerValuePredictor_init 100250 s_douyin s_sannong (Some 10)
         default_years (Some 0) =
       Inr (map (\<lambda>year. (year, py_round2 (100250 / 10000), nt,
                          py_round2 (real_of_int nt * 10 * 1.2)))
              [1, 2, 3, 4, 5])"
    by blast
  from nt sannong_expected_flat have "nt = 12" by simp
  with pv have "predict_value BloggerValuePredictor_init 100250 s_douyin s_sannong (Some 10)
      default_years (Some 0)
     = Inr [(1, 1003 / 100, 12, 144), (2, 1003 / 100, 12, 144), (3, 1003 / 100, 12, 144),
            (4, 1003 / 100, 12, 144), (5, 1003 / 100, 12, 144)]"
    by (simp only: list.map py_round2_followers rev py_round2_revenue)
  with pos p l show ?thesis by blast
qed

text \<open>
  Claim C9: when \<open>x\<close> lies in no segment's interval \<open>[start, end)\<close>, the curve returns the
  last segment's \<open>slope * x + intercept\<close>.  For each of the 32 curves these are exactly
  the \<open>x\<close> below 0 and the \<open>x\<close> from the last breakpoint 20000000 on, and at the last
  breakpoint the curve returns that breakpoint's price.  For the first label the curve
  gives 147999.9864 at \<open>-1\<close>, 200 at 0 and 420000 at the last breakpoint.
\<close>

theorem call_cpf_outside_all_segments:
  "(segments f \<noteq> [] \<and>
      (\<forall>(start, end, slope, intercept) \<in> set (segments f). \<not> (start \<le> x \<and> x < end)) \<and>
      last (segments f) = (s, e, m, b)
    \<longrightarrow> call_cpf f x = Inr (m * x + b)) \<and>
   (map_of DOUYIN_FUNCTIONS c = Some g \<and> last (segments g) = (sg, eg, mg, bg)
    \<longrightarrow> ((\<forall>(start, end, slope, intercept) \<in> set (segments g). \<not> (start \<le> x \<and> x < end))
            \<longleftrightarrow> x < 0 \<or> 20000000 \<le> x) \<and>
         (x < 0 \<or> 20000000 \<le> x \<longrightarrow> call_cpf g x = Inr (mg * x + bg)) \<and>
         (\<exists>bps. (c, bps) \<in> set douyin_breakpoints \<and>
                call_cpf g 20000000 = Inr (snd (last bps)))) \<and>
   (\<exists>h. map_of DOUYIN_FUNCTIONS s_sannong = Some h \<and>
        call_cpf h (- 1) = Inr (1479999864 / 10000) \<and> call_cpf h 0 = Inr 200 \<and>
        call_cpf h 20000000 = Inr 420000)"
proof (intro conjI impI)
  assume "segments f \<noteq> [] \<and>
      (\<forall>(start, end, slope, intercept) \<in> set (segments f). \<not> (start \<le> x \<and> x < end)) \<and>
      last (segments f) = (s, e, m, b)"
  then show "call_cpf f x = Inr (m * x + b)" by (simp add: call_cpf_fallthrough)
next
  assume "map_of DOUYIN_FUNCTIONS c = Some g \<and> last (segments g) = (sg, eg, mg, bg)"
  then have g: "map_of DOUYIN_FUNCTIONS c = Some g" by simp
  show "(\<forall>(start, end, slope, intercept) \<in> set (segments g). \<not> (start \<le> x \<and> x < end))
            \<longleftrightarrow> x < 0 \<or> 20000000 \<le> x"
    by (rule douyin_shape [OF g]) auto
next
  assume "map_of DOUYIN_FUNCTIONS c = Some g \<and> last (segments g) = (sg, eg, mg, bg)"
  then have g: "map_of DOUYIN_FUNCTIONS c = Some g"
    and l: "last (segments g) = (sg, eg, mg, bg)"
    by simp_all
  assume x: "x < 0 \<or> 20000000 \<le> x"
  have ne: "segments g \<noteq> []" by (rule douyin_shape [OF g]) simp
  have "(\<forall>(start, end, slope, intercept) \<in> set (segments g). \<not> (start \<le> x \<and> x < end))
            \<longleftrightarrow> x < 0 \<or> 20000000 \<le> x"
    by (rule douyin_shape [OF g]) auto
  with x have "\<forall>(start, end, slope, intercept) \<in> set (segments g). \<not> (start \<le> x \<and> x < end)"
    by blast
  from call_cpf_fallthrough [OF ne this l] show "call_cpf g x = Inr (mg * x + bg)" .
next
  assume "map_of DOUYIN_FUNCTIONS c = Some g \<and> last (segments g) = (sg, eg, mg, bg)"
  then have g: "map_of DOUYIN_FUNCTIONS c = Some g" by simp
  show "\<exists>bps. (c, bps) \<in> set douyin_breakpoints \<and> call_cpf g 20000000 = Inr (snd (last bps))"
  proof (rule douyin_shape [OF g])
    fix y0 y1 y2 y3 y4 y5 y6 :: real
    let ?bps = "[(0, y0), (60000, y1), (300000, y2), (750000, y3), (3000000, y4), (7500000, y5),
                 (20000000, y6)]"
    assume 1: "(c, ?bps) \<in> set douyin_breakpoints"
    assume 2: "segments g =
       [(0, 60000, (y1 - y0) / 60000, y0),
        (60000, 300000, (y2 - y1) / 240000, y1 - (y2 - y1) / 240000 * 60000),
        (300000, 750000, (y3 - y2) / 450000, y2 - (y3 - y2) / 450000 * 300000),
        (750000, 3000000, (y4 - y3) / 2250000, y3 - (y4 - y3) / 2250000 * 750000),
        (3000000, 7500000, (y5 - y4) / 4500000, y4 - (y5 - y4) / 4500000 * 3000000),
        (7500000, 20000000, (y6 - y5) / 12500000, y5 - (y6 - y5) / 12500000 * 7500000)]"
    have "call_cpf g 20000000 = Inr (snd (last ?bps))"
      by (simp add: call_cpf_def 2 field_simps)
    with 1 show ?thesis by blast
  qed
next
  show "\<exists>h. map_of DOUYIN_FUNCTIONS s_sannong = Some h \<and>
        call_cpf h (- 1) = Inr (1479999864 / 10000) \<and> call_cpf h 0 = Inr 200 \<and>
        call_cpf h 20000000 = Inr 420000"
    by (simp add: sannong_curve call_cpf_def)
qed

theorem call_cpf_outside_all_segments_witness:
  "call_cpf \<lparr>segments = [(0, 10, 3, 1), (10, 20, 5, - 19)]\<rparr> 25 = Inr (5 * 25 + - 19) \<and>
   (\<exists>g. map_of DOUYIN_FUNCTIONS s_sannong = Some g \<and>
        last (segments g) = (7500000, 20000000, 17/1250, 148000) \<and>
        call_cpf g (- 30000) = Inr (17/1250 * (- 30000) + 148000))"
proof -
  let ?f = "\<lparr>segments = [(0, 10, 3, 1), (10, 20, 5, - 19 :: real)]\<rparr>"
  let ?g = "\<lparr>segments =
     [(0, 60000, 11/100, 200), (60000, 300000, 7/200, 4700), (300000, 750000, 14/375, 4000),
      (750000, 3000000, 2/125, 20000), (3000000, 7500000, 91/2250, - (160000/3)),
      (7500000, 20000000, 17/1250, 148000)]\<rparr>"
  note outside = call_cpf_outside_all_segments [where f = ?f and x = 25 and s = 10 and e = 20
      and m = 5 and b = "- 19"]
  note negative = call_cpf_outside_all_segments [where x = "- 30000" and c = s_sannong
      and g = ?g and sg = 7500000 and eg = 20000000 and mg = "17/1250" and bg = 148000]
  have 1: "call_cpf ?f 25 = Inr (5 * 25 + - 19)"
    using outside by simp
  have l: "last (segments ?g) = (7500000, 20000000, 17/1250, 148000)" by simp
  have 2: "call_cpf ?g (- 30000) = Inr (17/1250 * (- 30000) + 148000)"
    using negative sannong_curve l by simp
  from 1 2 l sannong_curve show ?thesis by blast
qed

text \<open>
  Claim C10: with 0 followers, a platform of \<open>platform_params\<close>, a label of
  \<open>label_params\<close>, an explicit ad price and an explicit growth rate, \<open>predict_value\<close>
  raises ZeroDivisionError for every non-empty list of years, the default one included.
\<close>

theorem predict_value_zero_fans_raises:
  assumes "map_of (platform_params BloggerValuePredictor_init) platform = Some params"
    and "map_of (label_params BloggerValuePredictor_init) label = Some lp"
    and "years \<noteq> []"
  shows "predict_value BloggerValuePredictor_init 0 platform label (Some single_ad_value) years
           (Some growth_rate) = Inl ZeroDivisionError"
proof -
  obtain alpha gamma delta where lp: "lp = (alpha, gamma, delta)" by (cases lp)
  from assms(3) obtain year rest where years: "years = year # rest" by (cases years) auto
  note step = predict_step_zero_fans [OF valid_label_not_meta [OF assms(2)]]
  show ?thesis
    using assms(1,2) by (simp add: predict_value_def lp years Let_def step)
qed

theorem predict_value_zero_fans_raises_witness:
  "map_of (platform_params BloggerValuePredictor_init) s_douyin =
     Some \<lparr>param_k = 0.75, param_beta = 1.2, param_fan_limit = 500\<rparr> \<and>
   map_of (label_params BloggerValuePredictor_init) s_sannong = Some (0.45, 1.2, 0.6) \<and>
   default_years \<noteq> [] \<and>
   predict_value BloggerValuePredictor_init 0 s_douyin s_sannong (Some 10) default_years (Some 20)
     = Inl ZeroDivisionError"
proof -
  have p: "map_of (platform_params BloggerValuePredictor_init) s_douyin =
     Some \<lparr>param_k = 0.75, param_beta = 1.2, param_fan_limit = 500\<rparr>"
    by (simp add: BloggerValuePredictor_init_def)
  have l: "map_of (label_params BloggerValuePredictor_init) s_sannong = Some (0.45, 1.2, 0.6)"
    by (simp add: BloggerValuePredictor_init_def)
  have y: "default_years \<noteq> []" by (simp add: default_years_def)
  from predict_value_zero_fans_raises [OF p l y, of 10 20] p l y show ?thesis by blast
qed

end
